theory Spec2Isabelle
  imports Complex_Main
begin

text \<open>
  The valuation and lifecycle logic of the brokerage backend: the handlers of the
  holdings, positions, orders and watchlist routes, together with the schema validators,
  defaults, casts and save hooks that they run into. A collection is a value that the
  handlers take and return: a list where the code scans it, a map from \<open>_id\<close> to document
  where every lookup is by \<open>_id\<close>. The clock is the parameter \<open>now\<close>, a fresh \<open>_id\<close> is
  the parameter \<open>new_id\<close>, and failures of the database connection are not modelled.

  Every schema of the repository is strict and no handler reads lean documents. A
  document that a query returns therefore shows the paths of its schema only: a property
  that the schema does not declare reads \<open>undefined\<close>, whatever the stored document holds
  under that name, and neither a constructor nor \<open>bulkWrite\<close> writes such a property.
\<close>

section \<open>JavaScript numbers\<close>

text \<open>
  A JavaScript number is an IEEE 754 double. \<open>Fin r\<close> is the finite double with the
  value \<open>r\<close>; the numbers of a request are doubles already. The result of an operation on
  finite doubles is the exact result rounded to the nearest double, ties to the even
  significand, and an infinity once the rounded value leaves the range; the special
  values propagate as the language defines it. The sign of zero is dropped. A property
  that is \<open>undefined\<close> is \<open>None\<close>; converting it to a number gives \<open>NaN\<close>.
\<close>

datatype jsnum = Fin real | PosInfinity | NegInfinity | NaN

definition round_half_even :: "real \<Rightarrow> int" where
  "round_half_even y =
     (let f = \<lfloor>y\<rfloor> in
      if y - of_int f < 1 / 2 then f
      else if 1 / 2 < y - of_int f then f + 1
      else if even f then f else f + 1)"

text \<open>
  Binary64: 53 significant bits, least exponent \<open>-1022\<close> (below it the spacing of the
  subnormal numbers stays \<open>2 powr -1074\<close>), and every value from \<open>2 ^ 1024\<close> on is out of
  range.
\<close>

definition round_double :: "real \<Rightarrow> jsnum" where
  "round_double x =
     (if x = 0 then Fin 0
      else
        let e = max \<lfloor>log 2 \<bar>x\<bar>\<rfloor> (- 1022);
            ulp = 2 powr (of_int e - 52);
            y = of_int (round_half_even (x / ulp)) * ulp
        in if 2 ^ 1024 \<le> \<bar>y\<bar> then (if 0 < x then PosInfinity else NegInfinity) else Fin y)"

fun js_neg :: "jsnum \<Rightarrow> jsnum" where
  "js_neg (Fin a) = Fin (- a)"
| "js_neg PosInfinity = NegInfinity"
| "js_neg NegInfinity = PosInfinity"
| "js_neg NaN = NaN"

fun js_add :: "jsnum \<Rightarrow> jsnum \<Rightarrow> jsnum" where
  "js_add NaN _ = NaN"
| "js_add _ NaN = NaN"
| "js_add (Fin a) (Fin b) = round_double (a + b)"
| "js_add PosInfinity NegInfinity = NaN"
| "js_add NegInfinity PosInfinity = NaN"
| "js_add PosInfinity _ = PosInfinity"
| "js_add _ PosInfinity = PosInfinity"
| "js_add NegInfinity _ = NegInfinity"
| "js_add _ NegInfinity = NegInfinity"

definition js_sub :: "jsnum \<Rightarrow> jsnum \<Rightarrow> jsnum" where
  "js_sub a b = js_add a (js_neg b)"

fun js_sign :: "jsnum \<Rightarrow> real" where
  "js_sign (Fin a) = sgn a"
| "js_sign PosInfinity = 1"
| "js_sign NegInfinity = - 1"
| "js_sign NaN = 0"

fun js_mul :: "jsnum \<Rightarrow> jsnum \<Rightarrow> jsnum" where
  "js_mul NaN _ = NaN"
| "js_mul _ NaN = NaN"
| "js_mul (Fin a) (Fin b) = round_double (a * b)"
| "js_mul x y =
     (if js_sign x * js_sign y = 0 then NaN
      else if js_sign x * js_sign y > 0 then PosInfinity else NegInfinity)"

fun js_div :: "jsnum \<Rightarrow> jsnum \<Rightarrow> jsnum" where
  "js_div NaN _ = NaN"
| "js_div _ NaN = NaN"
| "js_div (Fin a) (Fin b) =
     (if b \<noteq> 0 then round_double (a / b)
      else if a = 0 then NaN else if a > 0 then PosInfinity else NegInfinity)"
| "js_div (Fin a) _ = Fin 0"
| "js_div x (Fin b) =
     (if (js_sign x > 0) = (b \<ge> 0) then PosInfinity else NegInfinity)"
| "js_div _ _ = NaN"

fun js_abs :: "jsnum \<Rightarrow> jsnum" where
  "js_abs (Fin a) = Fin \<bar>a\<bar>"
| "js_abs NaN = NaN"
| "js_abs _ = PosInfinity"

fun js_lt :: "jsnum \<Rightarrow> jsnum \<Rightarrow> bool" where
  "js_lt NaN _ = False"
| "js_lt _ NaN = False"
| "js_lt (Fin a) (Fin b) = (a < b)"
| "js_lt PosInfinity _ = False"
| "js_lt _ NegInfinity = False"
| "js_lt _ _ = True"

fun js_ge :: "jsnum \<Rightarrow> jsnum \<Rightarrow> bool" where
  "js_ge NaN _ = False"
| "js_ge _ NaN = False"
| "js_ge x y = (\<not> js_lt x y)"

fun truthy :: "jsnum option \<Rightarrow> bool" where
  "truthy None = False"
| "truthy (Some (Fin a)) = (a \<noteq> 0)"
| "truthy (Some NaN) = False"
| "truthy (Some _) = True"

fun to_num :: "jsnum option \<Rightarrow> jsnum" where
  "to_num None = NaN"
| "to_num (Some n) = n"


section \<open>Responses, object literals and schemas\<close>

text \<open>
  A handler answers with a status code and a JSON body. The constructors below are the
  status codes the handlers use; a 400 carries either the validator messages
  (\<open>errors.array()\<close>) or the handler's own \<open>error\<close> field. Numbers that the
  handlers print with \<open>toFixed(2)\<close> are kept as numbers: the rendering happens at the
  response boundary and is not modelled.
\<close>

datatype 'a response =
    Created 'a
  | Ok 'a
  | ValidationFailed "string list"
  | BadRequest string
  | NotFound string
  | ServerError string

datatype jsval = Undefined | Str string | Num jsnum | Date nat

text \<open>
  A schema is the list of its declared paths. For each path the model keeps what decides
  whether a document can be saved: whether the path is required and whether the schema
  gives it a default. A model constructor runs in strict mode (no schema of the
  repository switches it off): keys of the object literal that the schema does not
  declare are dropped. Saving validates first, and a required path without a value is a
  validation error that rejects the save.
\<close>

record schema_path =
  sp_path :: string
  sp_required :: bool
  sp_default :: bool

definition mk_path :: "string \<Rightarrow> bool \<Rightarrow> bool \<Rightarrow> schema_path" where
  "mk_path p r d = \<lparr>sp_path = p, sp_required = r, sp_default = d\<rparr>"

definition declared :: "schema_path list \<Rightarrow> string \<Rightarrow> bool" where
  "declared schema k = (k \<in> set (map sp_path schema))"

definition Model_new :: "schema_path list \<Rightarrow> (string \<times> jsval) list \<Rightarrow> (string \<times> jsval) list" where
  "Model_new schema obj = filter (\<lambda>(k, v). declared schema k) obj"

definition path_set :: "(string \<times> jsval) list \<Rightarrow> schema_path \<Rightarrow> bool" where
  "path_set doc p =
     (sp_default p \<or> (case map_of doc (sp_path p) of Some v \<Rightarrow> v \<noteq> Undefined | None \<Rightarrow> False))"

definition Model_validate :: "schema_path list \<Rightarrow> (string \<times> jsval) list \<Rightarrow> string list" where
  "Model_validate schema doc =
     map sp_path (filter (\<lambda>p. sp_required p \<and> \<not> path_set doc p) schema)"

text \<open>
  The \<open>_id\<close> of a filter is cast to an \<open>ObjectId\<close>, which a string of 24 hexadecimal
  digits is. The cast of another string throws inside the query, and the handler is then
  left through its \<open>catch\<close>. (A driver older than version 5 also takes any string of 12
  characters, as the bytes of an id; that variant is not modelled.)
\<close>

definition is_hex :: "char \<Rightarrow> bool" where
  "is_hex c = (c \<in> set ''0123456789abcdefABCDEF'')"

definition isObjectId :: "string \<Rightarrow> bool" where
  "isObjectId s = (length s = 24 \<and> list_all is_hex s)"

datatype query_error = CastError string

section \<open>Request validators\<close>

text \<open>
  The validators see a number of the body as the string JavaScript prints for it; from
  \<open>1e21\<close> on that string is in exponent notation, which \<open>isInt\<close> refuses.
\<close>

definition is_space :: "char \<Rightarrow> bool" where
  "is_space c = (c \<in> set [CHR '' '', CHR 0x09, CHR 0x0A, CHR 0x0B, CHR 0x0C, CHR 0x0D])"

definition js_trim :: "string \<Rightarrow> string" where
  "js_trim s = rev (dropWhile is_space (rev (dropWhile is_space s)))"

definition body_string :: "string option \<Rightarrow> string" where
  "body_string v = (case v of Some s \<Rightarrow> s | None \<Rightarrow> [])"

definition isInt_min :: "int \<Rightarrow> jsnum option \<Rightarrow> bool" where
  "isInt_min m v =
     (case v of Some (Fin r) \<Rightarrow> r = of_int \<lfloor>r\<rfloor> \<and> of_int m \<le> r \<and> r < 10 ^ 21 | _ \<Rightarrow> False)"

definition isFloat_min :: "real \<Rightarrow> jsnum option \<Rightarrow> bool" where
  "isFloat_min m v = (case v of Some (Fin r) \<Rightarrow> m \<le> r | _ \<Rightarrow> False)"

definition update_first :: "('a \<Rightarrow> bool) \<Rightarrow> ('a \<Rightarrow> 'a) \<Rightarrow> 'a list \<Rightarrow> 'a list" where
  "update_first P f xs =
     (case find P xs of None \<Rightarrow> xs
      | Some x \<Rightarrow> takeWhile (\<lambda>y. \<not> P y) xs @ f x # tl (dropWhile (\<lambda>y. \<not> P y) xs))"

section \<open>Holdings\<close>

text \<open>
  A stored holding is the document as the collection holds it: its \<open>_id\<close>, the paths
  \<open>userId\<close> and \<open>lastUpdated\<close> of the schema, and the fields \<open>name\<close>, \<open>qty\<close>, \<open>avg\<close>,
  \<open>price\<close>, \<open>net\<close> and \<open>day\<close> that the holdings routes name in their filters, reads and
  writes. The other paths of the schema play no part in the routes and are left out of
  the record. Request bodies carry JSON numbers; a missing key is \<open>None\<close>.
\<close>

record holding =
  h_id :: string
  h_userId :: string
  h_name :: string
  h_qty :: jsnum
  h_avg :: jsnum
  h_price :: jsnum
  h_net :: jsnum
  h_day :: jsnum
  h_lastUpdated :: nat

record holding_body =
  hb_name :: "string option"
  hb_qty :: "jsnum option"
  hb_avg :: "jsnum option"
  hb_price :: "jsnum option"

definition holdingValidation :: "holding_body \<Rightarrow> string list" where
  "holdingValidation b =
     (if js_trim (body_string (hb_name b)) \<noteq> [] then [] else [''Stock name is required'']) @
     (if isInt_min 1 (hb_qty b) then [] else [''Quantity must be at least 1'']) @
     (if isFloat_min (1 / 100) (hb_avg b) then [] else [''Average price must be greater than 0'']) @
     (if isFloat_min (1 / 100) (hb_price b) then [] else [''Current price must be greater than 0''])"

text \<open>The paths of \<open>HoldingsSchema\<close>, in the order of the source.\<close>

definition HoldingsSchema :: "schema_path list" where
  "HoldingsSchema =
     [mk_path ''userId'' True False,
      mk_path ''symbol'' True False,
      mk_path ''exchange'' True True,
      mk_path ''quantity'' True False,
      mk_path ''averageBuyPrice'' True False,
      mk_path ''currentMarketPrice'' True False,
      mk_path ''investedAmount'' False True,
      mk_path ''currentValue'' False True,
      mk_path ''profitLoss'' False True,
      mk_path ''profitLossPercentage'' False True,
      mk_path ''dayChange.value'' False True,
      mk_path ''dayChange.percentage'' False True,
      mk_path ''lastTradedPrice'' False False,
      mk_path ''collateralQuantity'' False True,
      mk_path ''collateralValue'' False True,
      mk_path ''pledgedQuantity'' False True,
      mk_path ''t1Quantity'' False True,
      mk_path ''authorizedQuantity'' False True,
      mk_path ''isin'' False False,
      mk_path ''industry'' False False,
      mk_path ''sector'' False False,
      mk_path ''companyName'' False False,
      mk_path ''lastUpdated'' False True]"

text \<open>
  \<open>POST /add\<close>: the values the handler computes from the validated body and the object
  literal it hands to the model constructor.
\<close>

definition newHolding_literal :: "string \<Rightarrow> nat \<Rightarrow> holding_body \<Rightarrow> (string \<times> jsval) list" where
  "newHolding_literal userId now body =
     (let name = js_trim (body_string (hb_name body));
          qty = to_num (hb_qty body);
          avg = to_num (hb_avg body);
          price = to_num (hb_price body);
          net = js_mul (js_sub price avg) qty;
          day = js_mul (js_div (js_sub price avg) avg) (Fin 100)
      in [(''userId'', Str userId), (''name'', Str name), (''qty'', Num qty), (''avg'', Num avg),
          (''price'', Num price), (''net'', Num net), (''day'', Num day),
          (''lastUpdated'', Date now)])"

definition literal_num :: "(string \<times> jsval) list \<Rightarrow> string \<Rightarrow> jsnum" where
  "literal_num obj k = (case map_of obj k of Some (Num n) \<Rightarrow> n | _ \<Rightarrow> NaN)"

definition literal_str :: "(string \<times> jsval) list \<Rightarrow> string \<Rightarrow> string" where
  "literal_str obj k = (case map_of obj k of Some (Str s) \<Rightarrow> s | _ \<Rightarrow> [])"

definition holdings_add ::
  "holding list \<Rightarrow> string \<Rightarrow> string \<Rightarrow> nat \<Rightarrow> holding_body \<Rightarrow> holding response \<times> holding list" where
  "holdings_add store userId new_id now body =
     (let errors = holdingValidation body in
      if errors \<noteq> [] then (ValidationFailed errors, store)
      else
        let obj = newHolding_literal userId now body;
            name = literal_str obj ''name''
        in case find (\<lambda>h. h_userId h = userId \<and> h_name h = name) store of
             Some existingHolding \<Rightarrow> (BadRequest ''Holding exists'', store)
           | None \<Rightarrow>
               let newHolding = Model_new HoldingsSchema obj in
               if Model_validate HoldingsSchema newHolding \<noteq> []
               then (ServerError ''Failed to add holding'', store)
               else
                 let h = \<lparr>h_id = new_id, h_userId = userId, h_name = name,
                          h_qty = literal_num obj ''qty'', h_avg = literal_num obj ''avg'',
                          h_price = literal_num obj ''price'', h_net = literal_num obj ''net'',
                          h_day = literal_num obj ''day'', h_lastUpdated = now\<rparr>
                 in (Created h, store @ [h]))"

text \<open>
  A numeric property of a holding that a query has returned. \<open>holding_field\<close> is the
  stored field of that name; the document shows it only when the name is a path of
  \<open>HoldingsSchema\<close>, and reads \<open>undefined\<close> otherwise.
\<close>

definition holding_field :: "holding \<Rightarrow> string \<Rightarrow> jsnum option" where
  "holding_field h k =
     (if k = ''qty'' then Some (h_qty h)
      else if k = ''avg'' then Some (h_avg h)
      else if k = ''price'' then Some (h_price h)
      else if k = ''net'' then Some (h_net h)
      else if k = ''day'' then Some (h_day h)
      else None)"

definition holding_get :: "holding \<Rightarrow> string \<Rightarrow> jsnum option" where
  "holding_get h k = (if declared HoldingsSchema k then holding_field h k else None)"

text \<open>
  \<open>POST /bulk-update\<close>. An item of the request carries the id of a holding and a price;
  \<open>!holdingId\<close> holds for a missing or empty id, \<open>!price\<close> for a missing, zero or NaN
  price. The loop collects one write per accepted item and one message per refused item,
  and the writes are sent together after the loop. \<open>findOne\<close> casts the id: for an id
  that is no \<open>ObjectId\<close> it throws, which ends the loop and the handler. The handler
  reads \<open>holding.avg\<close> and \<open>holding.qty\<close> from the document that \<open>findOne\<close> returns.
\<close>

record holding_update =
  u_holdingId :: "string option"
  u_price :: "jsnum option"

record holding_op =
  op_id :: string
  op_userId :: string
  op_price :: jsnum
  op_net :: jsnum
  op_day :: jsnum
  op_lastUpdated :: nat

definition truthy_str :: "string option \<Rightarrow> bool" where
  "truthy_str v = (case v of None \<Rightarrow> False | Some s \<Rightarrow> s \<noteq> [])"

definition template :: "string option \<Rightarrow> string" where
  "template v = (case v of None \<Rightarrow> ''undefined'' | Some s \<Rightarrow> s)"

fun holdings_bulk_loop ::
  "holding list \<Rightarrow> string \<Rightarrow> nat \<Rightarrow> holding_update list \<Rightarrow> holding_op list \<Rightarrow> string list
   \<Rightarrow> query_error + holding_op list \<times> string list" where
  "holdings_bulk_loop store userId now [] bulkOps errors = Inr (bulkOps, errors)"
| "holdings_bulk_loop store userId now (update # updates) bulkOps errors =
     (if \<not> truthy_str (u_holdingId update) \<or> \<not> truthy (u_price update)
      then holdings_bulk_loop store userId now updates bulkOps
             (errors @ [''Invalid update data for holding: '' @ template (u_holdingId update)])
      else if \<not> isObjectId (template (u_holdingId update))
      then Inl (CastError (template (u_holdingId update)))
      else
        case find (\<lambda>h. h_id h = template (u_holdingId update) \<and> h_userId h = userId) store of
          None \<Rightarrow>
            holdings_bulk_loop store userId now updates bulkOps
              (errors @ [''Holding not found: '' @ template (u_holdingId update)])
        | Some holding \<Rightarrow>
            let price = to_num (u_price update);
                avg = to_num (holding_get holding ''avg'');
                qty = to_num (holding_get holding ''qty'');
                net = js_mul (js_sub price avg) qty;
                day = js_mul (js_div (js_sub price avg) avg) (Fin 100)
            in holdings_bulk_loop store userId now updates
                 (bulkOps @ [\<lparr>op_id = template (u_holdingId update), op_userId = userId,
                              op_price = price, op_net = net, op_day = day,
                              op_lastUpdated = now\<rparr>])
                 errors)"

text \<open>
  \<open>bulkWrite\<close> casts the update of every operation against the schema and drops from
  \<open>$set\<close> the keys that are no paths; what is left is written to the document that the
  filter selects.
\<close>

definition holding_set :: "holding_op \<Rightarrow> holding \<Rightarrow> holding" where
  "holding_set op h =
     h\<lparr>h_price := (if declared HoldingsSchema ''price'' then op_price op else h_price h),
       h_net := (if declared HoldingsSchema ''net'' then op_net op else h_net h),
       h_day := (if declared HoldingsSchema ''day'' then op_day op else h_day h),
       h_lastUpdated :=
         (if declared HoldingsSchema ''lastUpdated'' then op_lastUpdated op else h_lastUpdated h)\<rparr>"

definition holdings_updateOne :: "holding_op \<Rightarrow> holding list \<Rightarrow> holding list" where
  "holdings_updateOne op store =
     update_first (\<lambda>h. h_id h = op_id op \<and> h_userId h = op_userId op) (holding_set op) store"

definition holdings_bulkWrite :: "holding_op list \<Rightarrow> holding list \<Rightarrow> holding list" where
  "holdings_bulkWrite bulkOps store = foldl (\<lambda>s op. holdings_updateOne op s) store bulkOps"

definition holdings_bulk_update ::
  "holding list \<Rightarrow> string \<Rightarrow> nat \<Rightarrow> holding_update list option
   \<Rightarrow> string list option response \<times> holding list" where
  "holdings_bulk_update store userId now updates =
     (case updates of
        None \<Rightarrow> (BadRequest ''Invalid request'', store)
      | Some us \<Rightarrow>
          (case holdings_bulk_loop store userId now us [] [] of
             Inl error \<Rightarrow> (ServerError ''Failed to update holdings'', store)
           | Inr (bulkOps, errors) \<Rightarrow>
               (Ok (if errors \<noteq> [] then Some errors else None),
                if bulkOps \<noteq> [] then holdings_bulkWrite bulkOps store else store)))"

text \<open>
  The portfolio metrics of \<open>GET /\<close> of the holdings routes, summed with \<open>reduce\<close> from
  \<open>0\<close> over the documents that \<open>find\<close> returns for the user. Nothing guards the
  division.
\<close>

record metrics =
  totalInvestment :: jsnum
  currentValue :: jsnum
  todaysPnL :: jsnum
  totalPnL :: jsnum
  totalPnLPercentage :: jsnum

definition holdings_metrics :: "holding list \<Rightarrow> metrics" where
  "holdings_metrics holdings =
     (let totalInvestment =
            foldl (\<lambda>sum h. js_add sum (js_mul (to_num (holding_get h ''avg''))
                                             (to_num (holding_get h ''qty'')))) (Fin 0) holdings;
          currentValue =
            foldl (\<lambda>sum h. js_add sum (js_mul (to_num (holding_get h ''price''))
                                             (to_num (holding_get h ''qty'')))) (Fin 0) holdings;
          todaysPnL = foldl (\<lambda>sum h. js_add sum (to_num (holding_get h ''net''))) (Fin 0) holdings;
          totalPnL = js_sub currentValue totalInvestment
      in \<lparr>totalInvestment = totalInvestment, currentValue = currentValue,
          todaysPnL = todaysPnL, totalPnL = totalPnL,
          totalPnLPercentage = js_mul (js_div totalPnL totalInvestment) (Fin 100)\<rparr>)"

section \<open>Positions\<close>

text \<open>
  A stored position, like a stored holding: its \<open>_id\<close>, the path \<open>userId\<close>, and the
  fields that the positions routes name. The paths of \<open>PositionsSchema\<close> follow, in the
  order of the source.
\<close>

record position =
  p_id :: string
  p_userId :: string
  p_name :: string
  p_qty :: jsnum
  p_avg :: jsnum
  p_price :: jsnum
  p_net :: jsnum
  p_day :: jsnum
  p_isLoss :: bool
  p_lastUpdated :: nat

definition PositionsSchema :: "schema_path list" where
  "PositionsSchema =
     [mk_path ''userId'' True False,
      mk_path ''symbol'' True False,
      mk_path ''exchange'' True True,
      mk_path ''product'' True False,
      mk_path ''quantity'' True False,
      mk_path ''averagePrice'' True False,
      mk_path ''lastTradedPrice'' True False,
      mk_path ''buyQuantity'' False True,
      mk_path ''buyValue'' False True,
      mk_path ''buyAveragePrice'' False True,
      mk_path ''sellQuantity'' False True,
      mk_path ''sellValue'' False True,
      mk_path ''sellAveragePrice'' False True,
      mk_path ''multiplier'' False True,
      mk_path ''profitLoss'' False True,
      mk_path ''realizedProfitLoss'' False True,
      mk_path ''unrealizedProfitLoss'' False True,
      mk_path ''dayChange.value'' False True,
      mk_path ''dayChange.percentage'' False True,
      mk_path ''overnight'' False True,
      mk_path ''closePrice'' False False,
      mk_path ''openPrice'' False False,
      mk_path ''highPrice'' False False,
      mk_path ''lowPrice'' False False,
      mk_path ''lastUpdateTime'' False True]"

definition position_field :: "position \<Rightarrow> string \<Rightarrow> jsnum option" where
  "position_field p k =
     (if k = ''qty'' then Some (p_qty p)
      else if k = ''avg'' then Some (p_avg p)
      else if k = ''price'' then Some (p_price p)
      else if k = ''net'' then Some (p_net p)
      else if k = ''day'' then Some (p_day p)
      else None)"

definition position_get :: "position \<Rightarrow> string \<Rightarrow> jsnum option" where
  "position_get p k = (if declared PositionsSchema k then position_field p k else None)"

text \<open>
  The metrics of \<open>GET /\<close> of the positions routes. The sums run over \<open>Math.abs(p.qty)\<close>;
  the third total is called \<open>dayPnL\<close> in this response.
\<close>

definition positions_metrics :: "position list \<Rightarrow> metrics" where
  "positions_metrics positions =
     (let totalInvestment =
            foldl (\<lambda>sum p. js_add sum (js_mul (to_num (position_get p ''avg''))
                                             (js_abs (to_num (position_get p ''qty''))))) (Fin 0) positions;
          currentValue =
            foldl (\<lambda>sum p. js_add sum (js_mul (to_num (position_get p ''price''))
                                             (js_abs (to_num (position_get p ''qty''))))) (Fin 0) positions;
          dayPnL = foldl (\<lambda>sum p. js_add sum (to_num (position_get p ''net''))) (Fin 0) positions;
          totalPnL = js_sub currentValue totalInvestment
      in \<lparr>totalInvestment = totalInvestment, currentValue = currentValue,
          todaysPnL = dayPnL, totalPnL = totalPnL,
          totalPnLPercentage = js_mul (js_div totalPnL totalInvestment) (Fin 100)\<rparr>)"

text \<open>\<open>POST /bulk-update\<close> of the positions routes, built like the one for holdings.\<close>

record position_update =
  pu_positionId :: "string option"
  pu_price :: "jsnum option"

record position_op =
  pop_id :: string
  pop_userId :: string
  pop_price :: jsnum
  pop_net :: jsnum
  pop_day :: jsnum
  pop_isLoss :: bool
  pop_lastUpdated :: nat

fun positions_bulk_loop ::
  "position list \<Rightarrow> string \<Rightarrow> nat \<Rightarrow> position_update list \<Rightarrow> position_op list \<Rightarrow> string list
   \<Rightarrow> query_error + position_op list \<times> string list" where
  "positions_bulk_loop store userId now [] bulkOps errors = Inr (bulkOps, errors)"
| "positions_bulk_loop store userId now (update # updates) bulkOps errors =
     (if \<not> truthy_str (pu_positionId update) \<or> \<not> truthy (pu_price update)
      then positions_bulk_loop store userId now updates bulkOps
             (errors @ [''Invalid update data for position: '' @ template (pu_positionId update)])
      else if \<not> isObjectId (template (pu_positionId update))
      then Inl (CastError (template (pu_positionId update)))
      else
        case find (\<lambda>p. p_id p = template (pu_positionId update) \<and> p_userId p = userId) store of
          None \<Rightarrow>
            positions_bulk_loop store userId now updates bulkOps
              (errors @ [''Position not found: '' @ template (pu_positionId update)])
        | Some position \<Rightarrow>
            let price = to_num (pu_price update);
                avg = to_num (position_get position ''avg'');
                qty = to_num (position_get position ''qty'');
                net = js_mul (js_sub price avg) qty;
                day = js_mul (js_div (js_sub price avg) avg) (Fin 100)
            in positions_bulk_loop store userId now updates
                 (bulkOps @ [\<lparr>pop_id = template (pu_positionId update), pop_userId = userId,
                              pop_price = price, pop_net = net, pop_day = day,
                              pop_isLoss = js_lt net (Fin 0), pop_lastUpdated = now\<rparr>])
                 errors)"

definition position_set :: "position_op \<Rightarrow> position \<Rightarrow> position" where
  "position_set op p =
     p\<lparr>p_price := (if declared PositionsSchema ''price'' then pop_price op else p_price p),
       p_net := (if declared PositionsSchema ''net'' then pop_net op else p_net p),
       p_day := (if declared PositionsSchema ''day'' then pop_day op else p_day p),
       p_isLoss := (if declared PositionsSchema ''isLoss'' then pop_isLoss op else p_isLoss p),
       p_lastUpdated :=
         (if declared PositionsSchema ''lastUpdated'' then pop_lastUpdated op else p_lastUpdated p)\<rparr>"

definition positions_updateOne :: "position_op \<Rightarrow> position list \<Rightarrow> position list" where
  "positions_updateOne op store =
     update_first (\<lambda>p. p_id p = pop_id op \<and> p_userId p = pop_userId op) (position_set op) store"

definition positions_bulkWrite :: "position_op list \<Rightarrow> position list \<Rightarrow> position list" where
  "positions_bulkWrite bulkOps store = foldl (\<lambda>s op. positions_updateOne op s) store bulkOps"

definition positions_bulk_update ::
  "position list \<Rightarrow> string \<Rightarrow> nat \<Rightarrow> position_update list option
   \<Rightarrow> string list option response \<times> position list" where
  "positions_bulk_update store userId now updates =
     (case updates of
        None \<Rightarrow> (BadRequest ''Invalid request'', store)
      | Some us \<Rightarrow>
          (case positions_bulk_loop store userId now us [] [] of
             Inl error \<Rightarrow> (ServerError ''Failed to update positions'', store)
           | Inr (bulkOps, errors) \<Rightarrow>
               (Ok (if errors \<noteq> [] then Some errors else None),
                if bulkOps \<noteq> [] then positions_bulkWrite bulkOps store else store)))"

section \<open>Orders\<close>

text \<open>
  An order document. The first group of fields are paths of \<open>OrdersSchema\<close> (those that
  carry a validator or a computed default, or that the routes touch); an unset path is
  \<open>None\<close>. The second group are the properties \<open>name\<close>, \<open>qty\<close> and \<open>lastModified\<close>
  that the order routes read and assign although the schema does not declare them. The
  collection maps the \<open>_id\<close> of an order to its document. The setters of \<open>symbol\<close>
  (upper case, trim) and the timestamps are left out.
\<close>

record order =
  o_userId :: "string option"
  o_symbol :: "string option"
  o_orderType :: string
  o_transactionType :: "string option"
  o_product :: string
  o_quantity :: "jsnum option"
  o_price :: "jsnum option"
  o_triggerPrice :: "jsnum option"
  o_status :: string
  o_validity :: string
  o_exchange :: string
  o_remainingQuantity :: "jsnum option"
  o_orderValue :: "jsnum option"
  o_name :: "string option"
  o_qty :: "jsnum option"
  o_lastModified :: "nat option"

definition field_str :: "(string \<times> jsval) list \<Rightarrow> string \<Rightarrow> string option" where
  "field_str obj k = (case map_of obj k of Some (Str s) \<Rightarrow> Some s | _ \<Rightarrow> None)"

definition field_num :: "(string \<times> jsval) list \<Rightarrow> string \<Rightarrow> jsnum option" where
  "field_num obj k = (case map_of obj k of Some (Num n) \<Rightarrow> Some n | _ \<Rightarrow> None)"

definition field_default :: "string option \<Rightarrow> string \<Rightarrow> string" where
  "field_default v d = (case v of Some s \<Rightarrow> s | None \<Rightarrow> d)"

text \<open>
  \<open>new OrdersModel(obj)\<close>: the declared paths are read from the object (any other key is
  dropped), constant defaults fill the unset paths, and the two computed defaults run
  afterwards on the document: \<open>remainingQuantity\<close> is \<open>this.quantity\<close> (and stays unset
  when that is undefined), \<open>orderValue\<close> is \<open>this.price * this.quantity\<close>. The default
  is cast to the type of its path, and the cast to \<open>Number\<close> refuses \<open>NaN\<close>: the path
  then stays unset and the document carries a cast error for it, which validation
  reports when the document is saved. A document that a query returns gets its defaults
  in the same way.
\<close>

definition orderValue_default :: "jsnum option \<Rightarrow> jsnum option \<Rightarrow> jsnum" where
  "orderValue_default price quantity = js_mul (to_num price) (to_num quantity)"

definition cast_Number :: "jsnum \<Rightarrow> jsnum option" where
  "cast_Number n = (if n = NaN then None else Some n)"

definition OrdersModel_new :: "(string \<times> jsval) list \<Rightarrow> order" where
  "OrdersModel_new obj =
     (let quantity = field_num obj ''quantity'';
          price = field_num obj ''price''
      in \<lparr>o_userId = field_str obj ''userId'',
          o_symbol = field_str obj ''symbol'',
          o_orderType = field_default (field_str obj ''orderType'') ''MARKET'',
          o_transactionType = field_str obj ''transactionType'',
          o_product = field_default (field_str obj ''product'') ''CNC'',
          o_quantity = quantity,
          o_price = price,
          o_triggerPrice = field_num obj ''triggerPrice'',
          o_status = field_default (field_str obj ''status'') ''PENDING'',
          o_validity = field_default (field_str obj ''validity'') ''DAY'',
          o_exchange = field_default (field_str obj ''exchange'') ''NSE'',
          o_remainingQuantity =
            (case field_num obj ''remainingQuantity'' of Some n \<Rightarrow> Some n | None \<Rightarrow> quantity),
          o_orderValue =
            (case field_num obj ''orderValue'' of Some n \<Rightarrow> Some n
             | None \<Rightarrow> cast_Number (orderValue_default price quantity)),
          o_name = None, o_qty = None, o_lastModified = None\<rparr>)"

text \<open>
  The cast error that a document carries since it was built or loaded: \<open>orderValue\<close> is
  unset and its default is \<open>NaN\<close>.
\<close>

definition OrdersSchema_cast_errors :: "order \<Rightarrow> string list" where
  "OrdersSchema_cast_errors d =
     (if o_orderValue d = None \<and> cast_Number (orderValue_default (o_price d) (o_quantity d)) = None
      then [''orderValue''] else [])"

text \<open>
  The validators that \<open>OrdersSchema\<close> declares: required paths (for \<open>price\<close> and
  \<open>triggerPrice\<close> the requirement is a function of \<open>orderType\<close>), minima, and
  enumerations. Each failure contributes its message; for a validator without a message
  of its own the path is named. The cast errors of the document come last.
\<close>

definition js_min :: "real \<Rightarrow> jsnum option \<Rightarrow> bool" where
  "js_min m v = (case v of None \<Rightarrow> True | Some n \<Rightarrow> js_ge n (Fin m))"

definition OrdersSchema_validate :: "order \<Rightarrow> string list" where
  "OrdersSchema_validate d =
     (if o_userId d \<noteq> None then [] else [''User ID is required'']) @
     (if truthy_str (o_symbol d) then [] else [''Stock symbol is required'']) @
     (if o_orderType d \<in> set [''MARKET'', ''LIMIT'', ''SL'', ''SL-M''] then [] else [''orderType'']) @
     (if o_transactionType d = None then [''Transaction type is required'']
      else if o_transactionType d \<in> set [Some ''BUY'', Some ''SELL''] then [] else [''transactionType'']) @
     (if o_product d \<in> set [''CNC'', ''MIS'', ''NRML''] then [] else [''product'']) @
     (if o_quantity d = None then [''Quantity is required'']
      else if js_min 1 (o_quantity d) then [] else [''Quantity must be at least 1'']) @
     (if (o_orderType d = ''LIMIT'' \<or> o_orderType d = ''SL'') \<and> o_price d = None then [''price'']
      else if js_min 0 (o_price d) then [] else [''Price cannot be negative'']) @
     (if (o_orderType d = ''SL'' \<or> o_orderType d = ''SL-M'') \<and> o_triggerPrice d = None
      then [''triggerPrice'']
      else if js_min 0 (o_triggerPrice d) then [] else [''Trigger price cannot be negative'']) @
     (if o_status d \<in> set [''PENDING'', ''EXECUTED'', ''CANCELLED'', ''REJECTED''] then [] else [''status'']) @
     (if o_validity d \<in> set [''DAY'', ''IOC''] then [] else [''validity'']) @
     (if o_exchange d \<in> set [''NSE'', ''BSE''] then [] else [''exchange'']) @
     OrdersSchema_cast_errors d"

text \<open>
  \<open>OrdersSchema.pre('save')\<close>. The hook has no early return: it calls \<open>next\<close> once for
  every check that fails and once more at its end. The calls are listed in order; the
  first one decides, later ones are ignored by the middleware runner.
\<close>

definition OrdersSchema_pre_save :: "order \<Rightarrow> string option list" where
  "OrdersSchema_pre_save d =
     (if (o_orderType d = ''LIMIT'' \<or> o_orderType d = ''SL'') \<and> \<not> truthy (o_price d)
      then [Some ''Price is required for LIMIT and SL orders''] else []) @
     (if (o_orderType d = ''SL'' \<or> o_orderType d = ''SL-M'') \<and> \<not> truthy (o_triggerPrice d)
      then [Some ''Trigger price is required for SL and SL-M orders''] else []) @
     (if o_orderType d = ''SL'' \<and> js_ge (to_num (o_triggerPrice d)) (to_num (o_price d))
      then [Some ''For SL orders, trigger price must be less than limit price''] else []) @
     [None]"

datatype save_error = ValidationError "string list" | HookError string

definition OrdersModel_save ::
  "string \<Rightarrow> order \<Rightarrow> (string \<rightharpoonup> order) \<Rightarrow> save_error + (string \<rightharpoonup> order)" where
  "OrdersModel_save oid d store =
     (if OrdersSchema_validate d \<noteq> [] then Inl (ValidationError (OrdersSchema_validate d))
      else case hd (OrdersSchema_pre_save d) of
             Some e \<Rightarrow> Inl (HookError e)
           | None \<Rightarrow> Inr (store(oid \<mapsto> d)))"


text \<open>
  The order routes: their common validators, \<open>POST /new\<close>, cancel and modify. Modify
  assigns a price to the document it has loaded; a cast error that the document carries
  from loading stays with it and rejects the save.
\<close>

record order_body =
  ob_name :: "string option"
  ob_qty :: "jsnum option"
  ob_price :: "jsnum option"
  ob_mode :: "string option"
  ob_orderType :: "string option"
  ob_validity :: "string option"
  ob_triggerPrice :: "jsnum option"

definition isIn :: "string list \<Rightarrow> string option \<Rightarrow> bool" where
  "isIn xs v = (case v of None \<Rightarrow> False | Some s \<Rightarrow> s \<in> set xs)"

definition orderValidation :: "order_body \<Rightarrow> string list" where
  "orderValidation b =
     (if js_trim (body_string (ob_name b)) \<noteq> [] then [] else [''Stock name is required'']) @
     (if isInt_min 1 (ob_qty b) then [] else [''Quantity must be at least 1'']) @
     (if isFloat_min (1 / 100) (ob_price b) then [] else [''Price must be greater than 0'']) @
     (if isIn [''BUY'', ''SELL''] (ob_mode b) then [] else [''Mode must be either BUY or SELL'']) @
     (if isIn [''MARKET'', ''LIMIT''] (ob_orderType b) then []
      else [''Order type must be either MARKET or LIMIT'']) @
     (if isIn [''DAY'', ''IOC''] (ob_validity b) then [] else [''Validity must be either DAY or IOC''])"

definition js_num :: "jsnum option \<Rightarrow> jsval" where
  "js_num v = (case v of None \<Rightarrow> Undefined | Some n \<Rightarrow> Num n)"

definition js_str :: "string option \<Rightarrow> jsval" where
  "js_str v = (case v of None \<Rightarrow> Undefined | Some s \<Rightarrow> Str s)"

definition newOrder_literal :: "string \<Rightarrow> nat \<Rightarrow> order_body \<Rightarrow> (string \<times> jsval) list" where
  "newOrder_literal userId now body =
     [(''userId'', Str userId),
      (''name'', Str (js_trim (body_string (ob_name body)))),
      (''qty'', js_num (ob_qty body)),
      (''price'', js_num (ob_price body)),
      (''mode'', js_str (ob_mode body)),
      (''orderType'', js_str (ob_orderType body)),
      (''validity'', js_str (ob_validity body)),
      (''triggerPrice'', js_num (ob_triggerPrice body)),
      (''status'', Str ''PENDING''),
      (''orderDate'', Date now),
      (''lastModified'', Date now)]"

definition orders_new ::
  "(string \<rightharpoonup> order) \<Rightarrow> string \<Rightarrow> string \<Rightarrow> nat \<Rightarrow> order_body
   \<Rightarrow> order response \<times> (string \<rightharpoonup> order)" where
  "orders_new store userId new_id now body =
     (let errors = orderValidation body in
      if errors \<noteq> [] then (ValidationFailed errors, store)
      else if ob_orderType body = Some ''LIMIT'' \<and> \<not> truthy (ob_price body)
      then (BadRequest ''Price is required for LIMIT orders'', store)
      else
        let newOrder = OrdersModel_new (newOrder_literal userId now body) in
        case OrdersModel_save new_id newOrder store of
          Inl e \<Rightarrow> (ServerError ''Failed to place order'', store)
        | Inr store' \<Rightarrow> (Created newOrder, store'))"





section \<open>Watchlists\<close>

text \<open>
  The paths of \<open>WatchlistSchema\<close>, in the order of the source; the entries of a watchlist
  are the array \<open>items\<close>. A stored watchlist is the document as the collection holds it:
  the paths \<open>userId\<close>, \<open>name\<close>, \<open>items\<close> and \<open>isDefault\<close>, and the field \<open>stocks\<close> that
  the watchlist routes name, which a stored document may lack. An entry has a symbol and
  an exchange; an entry of a request body may lack either. The collection is the list of
  the stored documents with their \<open>_id\<close>. The remaining paths carry no rule that the
  statements below depend on and are left out, and so is the property \<open>lastUpdated\<close>
  that the routes assign, which is no path and is not stored.
\<close>

definition WatchlistSchema :: "schema_path list" where
  "WatchlistSchema =
     [mk_path ''userId'' True False,
      mk_path ''name'' True False,
      mk_path ''description'' False False,
      mk_path ''items'' False True,
      mk_path ''isDefault'' False True,
      mk_path ''sortOrder'' False True,
      mk_path ''color'' False False,
      mk_path ''icon'' False False]"

record stock =
  s_symbol :: "string option"
  s_exchange :: "string option"

record watchlist =
  w_userId :: string
  w_name :: string
  w_items :: "stock list"
  w_stocks :: "stock list option"
  w_isDefault :: bool

text \<open>
  An array property of a watchlist that a query has returned: the stored field of that
  name when the name is a path of the schema, \<open>undefined\<close> otherwise.
\<close>

definition watchlist_field :: "watchlist \<Rightarrow> string \<Rightarrow> stock list option" where
  "watchlist_field w k =
     (if k = ''items'' then Some (w_items w)
      else if k = ''stocks'' then w_stocks w
      else None)"

definition watchlist_get :: "watchlist \<Rightarrow> string \<Rightarrow> stock list option" where
  "watchlist_get w k = (if declared WatchlistSchema k then watchlist_field w k else None)"

text \<open>
  The validators of the schema: the name (the setter of the path trims it) and, for
  every entry of \<open>items\<close>, the symbol and the exchange, which defaults to \<open>NSE\<close>.
\<close>

definition WatchlistItemSchema_validate :: "stock \<Rightarrow> string list" where
  "WatchlistItemSchema_validate item =
     (if js_trim (body_string (s_symbol item)) \<noteq> [] then [] else [''Stock symbol is required'']) @
     (if s_exchange item \<in> set [None, Some ''NSE'', Some ''BSE''] then [] else [''exchange''])"

definition WatchlistSchema_validate :: "watchlist \<Rightarrow> string list" where
  "WatchlistSchema_validate w =
     (if js_trim (w_name w) \<noteq> [] then [] else [''Watchlist name is required'']) @
     (if length (js_trim (w_name w)) \<le> 50 then []
      else [''Watchlist name cannot exceed 50 characters'']) @
     concat (map WatchlistItemSchema_validate (w_items w))"

text \<open>
  \<open>WatchlistSchema.pre('save')\<close>: for a document marked default, \<open>updateMany\<close> clears the
  flag of every other document of the same user.
\<close>

definition WatchlistSchema_pre_save ::
  "string \<Rightarrow> watchlist \<Rightarrow> (string \<times> watchlist) list \<Rightarrow> (string \<times> watchlist) list" where
  "WatchlistSchema_pre_save wid w store =
     (if w_isDefault w
      then map (\<lambda>(i, x). if w_userId x = w_userId w \<and> i \<noteq> wid
                           then (i, x\<lparr>w_isDefault := False\<rparr>) else (i, x)) store
      else store)"

text \<open>
  The unique index on \<open>userId\<close> and \<open>name\<close>: a write is refused when another document
  of the collection has the same owner and the same name.
\<close>

definition index_conflict :: "string \<Rightarrow> watchlist \<Rightarrow> (string \<times> watchlist) list \<Rightarrow> bool" where
  "index_conflict wid w store =
     list_ex (\<lambda>(j, x). j \<noteq> wid \<and> w_userId x = w_userId w \<and> js_trim (w_name x) = js_trim (w_name w))
       store"

fun upsert :: "string \<Rightarrow> 'a \<Rightarrow> (string \<times> 'a) list \<Rightarrow> (string \<times> 'a) list" where
  "upsert k v [] = [(k, v)]"
| "upsert k v (x # xs) = (if fst x = k then (k, v) # xs else x # upsert k v xs)"

text \<open>
  \<open>save()\<close>: validation, then the hook, then the write. The result is the error of the
  save, if any, and the collection afterwards: when the index refuses the write, the
  \<open>updateMany\<close> of the hook has been carried out already.
\<close>

datatype watchlist_save_error = WatchlistValidationError "string list" | DuplicateKeyError

definition WatchlistModel_save ::
  "string \<Rightarrow> watchlist \<Rightarrow> (string \<times> watchlist) list
   \<Rightarrow> watchlist_save_error option \<times> (string \<times> watchlist) list" where
  "WatchlistModel_save wid w store =
     (if WatchlistSchema_validate w \<noteq> []
      then (Some (WatchlistValidationError (WatchlistSchema_validate w)), store)
      else
        let store' = WatchlistSchema_pre_save wid w store in
        if index_conflict wid w store' then (Some DuplicateKeyError, store')
        else (None, upsert wid w store'))"

definition WatchlistModel_findOne ::
  "(string \<times> watchlist) list \<Rightarrow> string \<Rightarrow> string \<Rightarrow> watchlist option" where
  "WatchlistModel_findOne store wid userId =
     (case map_of store wid of
        None \<Rightarrow> None
      | Some w \<Rightarrow> if w_userId w = userId then Some w else None)"

text \<open>A sequence of saves, each with the \<open>_id\<close> of its document.\<close>

definition save_step ::
  "(string \<times> watchlist) list \<Rightarrow> string \<times> watchlist \<Rightarrow> (string \<times> watchlist) list" where
  "save_step store sw = snd (WatchlistModel_save (fst sw) (snd sw) store)"

definition save_all ::
  "(string \<times> watchlist) list \<Rightarrow> (string \<times> watchlist) list \<Rightarrow> (string \<times> watchlist) list" where
  "save_all store saves = foldl save_step store saves"

text \<open>
  \<open>DELETE /:watchlistId/remove/:symbol\<close>, with \<open>findIndex\<close> and \<open>splice(i, 1)\<close>. The
  handler reads \<open>watchlist.stocks\<close> from the document that \<open>findOne\<close> returns; calling
  \<open>findIndex\<close> on \<open>undefined\<close> throws, and the \<open>catch\<close> of the handler answers 500. The
  answer to a successful request carries the entries.
\<close>

fun findIndex :: "('a \<Rightarrow> bool) \<Rightarrow> 'a list \<Rightarrow> nat option" where
  "findIndex P [] = None"
| "findIndex P (x # xs) = (if P x then Some 0 else map_option Suc (findIndex P xs))"

definition splice1 :: "nat \<Rightarrow> 'a list \<Rightarrow> 'a list" where
  "splice1 i xs = take i xs @ drop (Suc i) xs"

definition watchlist_remove ::
  "(string \<times> watchlist) list \<Rightarrow> string \<Rightarrow> string \<Rightarrow> string
   \<Rightarrow> stock list response \<times> (string \<times> watchlist) list" where
  "watchlist_remove store userId watchlistId symbol =
     (if \<not> isObjectId watchlistId then (ServerError ''Failed to remove stock'', store)
      else
        case WatchlistModel_findOne store watchlistId userId of
          None \<Rightarrow> (NotFound ''Watchlist not found'', store)
        | Some watchlist \<Rightarrow>
            (case watchlist_get watchlist ''stocks'' of
               None \<Rightarrow> (ServerError ''Failed to remove stock'', store)
             | Some stocks \<Rightarrow>
                 (case findIndex (\<lambda>s. s_symbol s = Some symbol) stocks of
                    None \<Rightarrow> (NotFound ''Stock not found'', store)
                  | Some stockIndex \<Rightarrow>
                      let watchlist' = watchlist\<lparr>w_stocks := Some (splice1 stockIndex stocks)\<rparr> in
                      (case WatchlistModel_save watchlistId watchlist' store of
                         (Some error, store') \<Rightarrow> (ServerError ''Failed to remove stock'', store')
                       | (None, store') \<Rightarrow> (Ok (splice1 stockIndex stocks), store')))))"

text \<open>
  \<open>WatchlistSchema.methods.removeItem\<close>, on the list it filters; the exchange defaults
  to \<open>NSE\<close>. The method returns nothing and reports nothing, and no route calls it.
\<close>

definition removeItem :: "stock list \<Rightarrow> string \<Rightarrow> string option \<Rightarrow> stock list" where
  "removeItem items symbol exchange =
     filter (\<lambda>item. \<not> (s_symbol item = Some symbol
                         \<and> s_exchange item = Some (field_default exchange ''NSE''))) items"

text \<open>
  \<open>PUT /:watchlistId/reorder\<close>. The validator of the route wants \<open>stocks\<close> to be an
  array. The two \<open>Set\<close>s hold the keys \<open>symbol:exchange\<close> of the stored and of the
  submitted entries; their sizes are compared, then every submitted entry is looked up in
  the set of stored keys. The stored entries are read as \<open>watchlist.stocks\<close>; calling
  \<open>map\<close> on \<open>undefined\<close> throws.
\<close>

definition stock_key :: "stock \<Rightarrow> string" where
  "stock_key s = template (s_symbol s) @ '':'' @ template (s_exchange s)"

definition set_size :: "string list \<Rightarrow> nat" where
  "set_size keys = length (remdups keys)"

definition watchlist_reorder ::
  "(string \<times> watchlist) list \<Rightarrow> string \<Rightarrow> string \<Rightarrow> stock list option
   \<Rightarrow> stock list response \<times> (string \<times> watchlist) list" where
  "watchlist_reorder store userId watchlistId body_stocks =
     (case body_stocks of
        None \<Rightarrow> (ValidationFailed [''Stocks must be an array''], store)
      | Some stocks \<Rightarrow>
          if \<not> isObjectId watchlistId then (ServerError ''Failed to reorder watchlist'', store)
          else
            (case WatchlistModel_findOne store watchlistId userId of
               None \<Rightarrow> (NotFound ''Watchlist not found'', store)
             | Some watchlist \<Rightarrow>
                 (case watchlist_get watchlist ''stocks'' of
                    None \<Rightarrow> (ServerError ''Failed to reorder watchlist'', store)
                  | Some current \<Rightarrow>
                      let currentStocks = map stock_key current;
                          newStocks = map stock_key stocks
                      in if set_size currentStocks \<noteq> set_size newStocks
                         then (BadRequest ''Invalid stocks'', store)
                         else if find (\<lambda>stock. stock_key stock \<notin> set currentStocks) stocks \<noteq> None
                         then (BadRequest ''Invalid stock'', store)
                         else
                           let watchlist' = watchlist\<lparr>w_stocks := Some stocks\<rparr> in
                           (case WatchlistModel_save watchlistId watchlist' store of
                              (Some error, store') \<Rightarrow>
                                (ServerError ''Failed to reorder watchlist'', store')
                            | (None, store') \<Rightarrow> (Ok stocks, store')))))"

section \<open>Auxiliary notions for the statements\<close>


definition OrdersSchema_admits :: "order \<Rightarrow> bool" where
  "OrdersSchema_admits d = (OrdersSchema_validate d = [] \<and> hd (OrdersSchema_pre_save d) = None)"

text \<open>At most one watchlist of any user is marked default.\<close>

definition single_default :: "(string \<times> watchlist) list \<Rightarrow> bool" where
  "single_default store =
     (\<forall>i j a b. map_of store i = Some a \<and> map_of store j = Some b \<and> w_userId a = w_userId b
                 \<and> w_isDefault a \<and> w_isDefault b \<longrightarrow> i = j)"

section \<open>Example data\<close>





text \<open>Users, by the \<open>ObjectId\<close> that their token carries.\<close>

definition user_1 :: string where
  "user_1 = ''507f1f77bcf86cd799439011''"

definition user_2 :: string where
  "user_2 = ''507f1f77bcf86cd799439012''"

definition example_limit_order :: "(string \<times> jsval) list" where
  "example_limit_order =
     [(''userId'', Str user_1), (''symbol'', Str ''INFY''), (''transactionType'', Str ''BUY''),
      (''quantity'', Num (Fin 10)), (''orderType'', Str ''LIMIT''), (''price'', Num (Fin 100))]"

definition example_zero_limit_order :: "(string \<times> jsval) list" where
  "example_zero_limit_order =
     [(''userId'', Str user_1), (''symbol'', Str ''INFY''), (''transactionType'', Str ''BUY''),
      (''quantity'', Num (Fin 10)), (''orderType'', Str ''LIMIT''), (''price'', Num (Fin 0))]"

definition example_market_order :: "(string \<times> jsval) list" where
  "example_market_order =
     [(''userId'', Str user_1), (''symbol'', Str ''INFY''), (''transactionType'', Str ''BUY''),
      (''quantity'', Num (Fin 10)), (''orderType'', Str ''MARKET'')]"

definition example_stop_order :: "(string \<times> jsval) list" where
  "example_stop_order =
     [(''userId'', Str user_1), (''symbol'', Str ''INFY''), (''transactionType'', Str ''SELL''),
      (''quantity'', Num (Fin 10)), (''orderType'', Str ''SL''), (''price'', Num (Fin 100)),
      (''triggerPrice'', Num (Fin 100))]"

definition example_market_body :: order_body where
  "example_market_body =
     \<lparr>ob_name = Some ''INFY'', ob_qty = Some (Fin 10), ob_price = None,
      ob_mode = Some ''BUY'', ob_orderType = Some ''MARKET'', ob_validity = Some ''DAY'',
      ob_triggerPrice = None\<rparr>"



text \<open>Two stored holdings and two stored positions of the first user, with their ids.\<close>

definition id_a :: string where
  "id_a = ''64b7f0a1c2d3e4f5a6b7c8d1''"

definition id_b :: string where
  "id_b = ''64b7f0a1c2d3e4f5a6b7c8d2''"

definition id_c :: string where
  "id_c = ''64b7f0a1c2d3e4f5a6b7c8d3''"

definition example_holding_a :: holding where
  "example_holding_a =
     \<lparr>h_id = id_a, h_userId = user_1, h_name = ''INFY'', h_qty = Fin 10, h_avg = Fin 100,
      h_price = Fin 110, h_net = Fin 100, h_day = Fin 10, h_lastUpdated = 1\<rparr>"

definition example_holding_b :: holding where
  "example_holding_b =
     \<lparr>h_id = id_b, h_userId = user_1, h_name = ''TCS'', h_qty = Fin 5, h_avg = Fin 50,
      h_price = Fin 40, h_net = Fin (- 50), h_day = Fin (- 20), h_lastUpdated = 1\<rparr>"

definition example_position_a :: position where
  "example_position_a =
     \<lparr>p_id = id_a, p_userId = user_1, p_name = ''INFY'', p_qty = Fin 10, p_avg = Fin 100,
      p_price = Fin 110, p_net = Fin 100, p_day = Fin 10, p_isLoss = False, p_lastUpdated = 1\<rparr>"

definition example_position_b :: position where
  "example_position_b =
     \<lparr>p_id = id_b, p_userId = user_1, p_name = ''TCS'', p_qty = Fin 5, p_avg = Fin 50,
      p_price = Fin 40, p_net = Fin (- 50), p_day = Fin (- 20), p_isLoss = True, p_lastUpdated = 1\<rparr>"

text \<open>Entries and watchlists.\<close>

definition infy_nse :: stock where
  "infy_nse = \<lparr>s_symbol = Some ''INFY'', s_exchange = Some ''NSE''\<rparr>"

definition tcs_nse :: stock where
  "tcs_nse = \<lparr>s_symbol = Some ''TCS'', s_exchange = Some ''NSE''\<rparr>"

definition example_watchlist :: watchlist where
  "example_watchlist =
     \<lparr>w_userId = user_1, w_name = ''Default Watchlist'', w_items = [infy_nse, tcs_nse],
      w_stocks = None, w_isDefault = True\<rparr>"

definition example_watchlist_tech :: watchlist where
  "example_watchlist_tech =
     \<lparr>w_userId = user_1, w_name = ''Tech'', w_items = [tcs_nse], w_stocks = None,
      w_isDefault = False\<rparr>"

definition example_watchlist_other :: watchlist where
  "example_watchlist_other =
     \<lparr>w_userId = user_2, w_name = ''Default Watchlist'', w_items = [], w_stocks = None,
      w_isDefault = True\<rparr>"

definition id_d :: string where
  "id_d = ''64b7f0a1c2d3e4f5a6b7c8d4''"

definition example_watchlist_growth :: watchlist where
  "example_watchlist_growth =
     \<lparr>w_userId = user_1, w_name = ''Growth'', w_items = [infy_nse], w_stocks = None,
      w_isDefault = True\<rparr>"

definition example_watchlists :: "(string \<times> watchlist) list" where
  "example_watchlists =
     [(id_a, example_watchlist), (id_b, example_watchlist_tech), (id_c, example_watchlist_other)]"

section \<open>Auxiliary lemmas\<close>

subsection \<open>Numbers\<close>

lemma round_double_not_NaN: "round_double x \<noteq> NaN"
  by (simp add: round_double_def Let_def)

lemma round_double_zero: "round_double 0 = Fin 0"
  by (simp add: round_double_def)

lemma js_add_NaN_right: "js_add x NaN = NaN"
  by (cases x) simp_all


lemma js_div_NaN_right: "js_div x NaN = NaN"
  by (cases x) simp_all

lemma js_sub_NaN_right: "js_sub x NaN = NaN"
  by (simp add: js_sub_def js_add_NaN_right)

lemma js_sub_NaN_left: "js_sub NaN x = NaN"
  by (simp add: js_sub_def)

lemma js_mul_finite_not_NaN: "js_mul (Fin a) (Fin b) \<noteq> NaN"
  by (simp add: round_double_not_NaN)

lemma js_percentage_zero:
  "js_mul (js_div pnl (Fin 0)) (Fin 100) \<in> {NaN, PosInfinity, NegInfinity}"
  by (cases pnl) simp_all

text \<open>
  The rounding at work. Away from the least exponent, a number between \<open>2 powr e\<close> and
  \<open>2 powr (e + 1)\<close> is rounded to a multiple of \<open>2 powr (e - 52)\<close>; every integer below
  \<open>2 ^ 53\<close> in absolute value is a double; \<open>0.1 * 3\<close> is \<open>0.30000000000000004\<close> (the
  doubles nearest to \<open>0.1\<close> and to \<open>0.3\<close> are \<open>3602879701896397 / 2 ^ 55\<close> and
  \<open>5404319552844595 / 2 ^ 54\<close>, and the product lies halfway between the latter and the
  next double); and a product beyond the range is \<open>Infinity\<close>.
\<close>

lemma round_double_normal:
  assumes "2 powr of_int e \<le> \<bar>x\<bar>" and "\<bar>x\<bar> < 2 powr of_int (e + 1)" and "- 1022 \<le> e"
    and "u = 2 powr (of_int e - 52)"
  shows "round_double x =
     (if 2 ^ 1024 \<le> \<bar>of_int (round_half_even (x / u)) * u\<bar>
      then (if 0 < x then PosInfinity else NegInfinity)
      else Fin (of_int (round_half_even (x / u)) * u))"
proof -
  have pos: "0 < \<bar>x\<bar>"
    using assms(1) by (smt (verit) powr_gt_zero)
  then have nz: "x \<noteq> 0" by simp
  have "\<lfloor>log 2 \<bar>x\<bar>\<rfloor> = e"
    using assms(1,2) pos by (simp add: floor_log_eq_powr_iff)
  then have "max \<lfloor>log 2 \<bar>x\<bar>\<rfloor> (- 1022) = e"
    using assms(3) by simp
  then show ?thesis
    using nz assms(4) by (simp add: round_double_def Let_def)
qed

lemma round_half_even_int: "round_half_even (of_int m) = m"
  by (simp add: round_half_even_def)

lemma round_double_of_int:
  assumes "n \<noteq> 0" and "\<bar>n\<bar> < 2 ^ 53"
  shows "round_double (of_int n) = Fin (of_int n)"
proof -
  define e where "e = \<lfloor>log 2 \<bar>of_int n :: real\<bar>\<rfloor>"
  have "1 \<le> \<bar>n\<bar>" using assms(1) by linarith
  then have ge1: "1 \<le> \<bar>of_int n :: real\<bar>"
    using of_int_le_iff [of 1 "\<bar>n\<bar>", where ?'a = real] by simp
  then have pos: "0 < \<bar>of_int n :: real\<bar>" by linarith
  have lt53: "\<bar>of_int n :: real\<bar> < 2 ^ 53"
    using assms(2) of_int_less_iff [of "\<bar>n\<bar>" "2 ^ 53", where ?'a = real] by simp
  have bounds: "2 powr of_int e \<le> \<bar>of_int n :: real\<bar>" "\<bar>of_int n :: real\<bar> < 2 powr of_int (e + 1)"
    using floor_log_eq_powr_iff [of "\<bar>of_int n :: real\<bar>" 2 e] pos by (simp_all add: e_def)
  have e0: "0 \<le> e"
    using ge1 by (simp add: e_def)
  have p53: "(2::real) powr 53 = 2 ^ 53"
    using powr_realpow [of 2 53] by simp
  have "(2::real) powr of_int e < 2 powr 53"
    unfolding p53 using bounds(1) lt53 by linarith
  then have "real_of_int e < 53"
    by (rule powr_less_cancel) simp
  then have e52: "e \<le> 52" by linarith
  define k where "k = nat (52 - e)"
  have u: "(2::real) powr (of_int e - 52) = 1 / 2 ^ k"
  proof -
    have "of_int e - 52 = - real k" using e52 by (simp add: k_def)
    then show ?thesis by (simp add: powr_minus_divide powr_realpow)
  qed
  have q: "of_int n / (1 / 2 ^ k) = (of_int (n * 2 ^ k) :: real)" by simp
  have r: "round_half_even (of_int n / (1 / 2 ^ k)) = n * 2 ^ k"
    unfolding q by (rule round_half_even_int)
  have y: "of_int (round_half_even (of_int n / (1 / 2 ^ k))) * (1 / 2 ^ k) = (of_int n :: real)"
    unfolding r by simp
  have small: "\<not> 2 ^ 1024 \<le> \<bar>of_int n :: real\<bar>"
  proof -
    have "(2::real) ^ 53 < 2 ^ 1024" by simp
    with lt53 show ?thesis by linarith
  qed
  have "- 1022 \<le> e" using e0 by simp
  from round_double_normal [OF bounds this u [symmetric]]
  show ?thesis by (simp only: y small if_False)
qed

lemma round_half_even_tie_odd:
  "odd m \<Longrightarrow> round_half_even (of_int m + 1 / 2) = m + 1"
proof -
  assume odd: "odd m"
  have f: "\<lfloor>of_int m + (1 / 2 :: real)\<rfloor> = m" by linarith
  show ?thesis using odd by (simp add: round_half_even_def f Let_def)
qed

lemma js_mul_rounds:
  "js_mul (Fin (3602879701896397 / 2 ^ 55)) (Fin 3) = Fin (5404319552844596 / 2 ^ 54)"
proof -
  let ?x = "3602879701896397 / 2 ^ 55 * 3 :: real"
  have u: "(2::real) powr (of_int (- 2) - 52) = 1 / 2 ^ 54"
    by (simp add: powr_minus_divide powr_realpow [symmetric])
  have e: "2 powr of_int (- 2) \<le> \<bar>?x\<bar>" "\<bar>?x\<bar> < 2 powr of_int (- 2 + 1)"
    by (simp_all add: powr_minus_divide)
  have q: "?x / (1 / 2 ^ 54) = of_int 5404319552844595 + 1 / 2"
    by simp
  have r: "round_half_even (?x / (1 / 2 ^ 54)) = 5404319552844596"
    unfolding q using round_half_even_tie_odd [of 5404319552844595] by simp
  show ?thesis
    using round_double_normal [OF e _ u [symmetric]] r by simp
qed

lemma js_mul_overflows: "js_mul (Fin (2 ^ 1023)) (Fin 2) = PosInfinity"
proof -
  let ?x = "2 ^ 1023 * 2 :: real"
  have u: "(2::real) powr (of_int 1024 - 52) = 2 ^ 972"
    by (simp add: powr_realpow [symmetric])
  have e: "2 powr of_int 1024 \<le> \<bar>?x\<bar>" "\<bar>?x\<bar> < 2 powr of_int (1024 + 1)"
    by (simp_all add: powr_realpow [symmetric])
  have r: "round_half_even (?x / 2 ^ 972) = 2 ^ 52"
    using round_half_even_int [of "2 ^ 52"] by simp
  show ?thesis
    using round_double_normal [OF e _ u [symmetric]] r by simp
qed

lemma round_double_1000: "round_double 1000 = Fin 1000"
  using round_double_of_int [of 1000] by simp

lemma js_mul_100_10: "js_mul (Fin 100) (Fin 10) = Fin 1000"
  by (simp add: round_double_1000)

subsection \<open>Documents of the holdings and positions collections\<close>

text \<open>
  None of the properties that the holdings and positions routes read is a path of its
  schema. The metrics of a list that is not empty are therefore all \<open>NaN\<close>; a write of
  \<open>bulkWrite\<close> reaches \<open>lastUpdated\<close> of a holding and nothing of a position.
\<close>

lemma holding_get_undeclared:
  "holding_get h ''qty'' = None" "holding_get h ''avg'' = None" "holding_get h ''price'' = None"
  "holding_get h ''net'' = None" "holding_get h ''day'' = None"
  by (simp_all add: holding_get_def declared_def HoldingsSchema_def mk_path_def)

lemma position_get_undeclared:
  "position_get p ''qty'' = None" "position_get p ''avg'' = None" "position_get p ''price'' = None"
  "position_get p ''net'' = None" "position_get p ''day'' = None"
  by (simp_all add: position_get_def declared_def PositionsSchema_def mk_path_def)

lemma holding_set_lastUpdated: "holding_set op h = h\<lparr>h_lastUpdated := op_lastUpdated op\<rparr>"
  by (simp add: holding_set_def declared_def HoldingsSchema_def mk_path_def)

lemma position_set_nothing: "position_set op p = p"
  by (simp add: position_set_def declared_def PositionsSchema_def mk_path_def)

lemma update_first_same: "update_first P (\<lambda>x. x) xs = xs"
proof (induction xs)
  case Nil
  then show ?case by (simp add: update_first_def)
next
  case (Cons a xs)
  then show ?case by (auto simp: update_first_def split: option.splits)
qed

lemma map_update_first:
  assumes "\<And>x. f (g x) = f x"
  shows "map f (update_first P g xs) = map f xs"
proof (induction xs)
  case Nil
  then show ?case by (simp add: update_first_def)
next
  case (Cons a xs)
  then show ?case using assms by (auto simp: update_first_def split: option.splits)
qed

lemma positions_bulkWrite_nothing: "positions_bulkWrite bulkOps store = store"
proof -
  have one: "\<And>op s. positions_updateOne op s = s"
    unfolding positions_updateOne_def using update_first_same [where ?'a = position]
    by (simp add: position_set_nothing [abs_def])
  show ?thesis unfolding positions_bulkWrite_def by (induction bulkOps arbitrary: store) (simp_all add: one)
qed

lemma holdings_bulkWrite_lastUpdated:
  "map (\<lambda>h. h\<lparr>h_lastUpdated := 0\<rparr>) (holdings_bulkWrite bulkOps store) =
   map (\<lambda>h. h\<lparr>h_lastUpdated := 0\<rparr>) store"
proof (induction bulkOps arbitrary: store)
  case Nil
  then show ?case by (simp add: holdings_bulkWrite_def)
next
  case (Cons op bulkOps)
  have "map (\<lambda>h. h\<lparr>h_lastUpdated := 0\<rparr>) (holdings_updateOne op store) =
        map (\<lambda>h. h\<lparr>h_lastUpdated := 0\<rparr>) store"
    unfolding holdings_updateOne_def
    by (rule map_update_first) (simp add: holding_set_lastUpdated)
  with Cons [of "holdings_updateOne op store"] show ?case
    by (simp add: holdings_bulkWrite_def)
qed

lemma foldl_NaN: "foldl (\<lambda>sum x. NaN) acc xs = (if xs = [] then acc else NaN)"
  by (induction xs arbitrary: acc) simp_all

lemma foldl_js_add_NaN_nonempty: "xs \<noteq> [] \<Longrightarrow> foldl (\<lambda>sum x. js_add sum NaN) acc xs = NaN"
  by (simp add: js_add_NaN_right foldl_NaN)

lemma holdings_metrics_nonempty:
  assumes "holdings \<noteq> []"
  shows "holdings_metrics holdings =
    \<lparr>totalInvestment = NaN, currentValue = NaN, todaysPnL = NaN, totalPnL = NaN,
     totalPnLPercentage = NaN\<rparr>"
  using assms
  by (simp add: holdings_metrics_def holding_get_undeclared foldl_js_add_NaN_nonempty
      js_sub_NaN_left Let_def)

lemma positions_metrics_nonempty:
  assumes "positions \<noteq> []"
  shows "positions_metrics positions =
    \<lparr>totalInvestment = NaN, currentValue = NaN, todaysPnL = NaN, totalPnL = NaN,
     totalPnLPercentage = NaN\<rparr>"
  using assms
  by (simp add: positions_metrics_def position_get_undeclared foldl_js_add_NaN_nonempty
      js_sub_NaN_left Let_def)

lemma metrics_empty:
  "holdings_metrics [] =
    \<lparr>totalInvestment = Fin 0, currentValue = Fin 0, todaysPnL = Fin 0, totalPnL = Fin 0,
     totalPnLPercentage = NaN\<rparr>"
  "positions_metrics [] =
    \<lparr>totalInvestment = Fin 0, currentValue = Fin 0, todaysPnL = Fin 0, totalPnL = Fin 0,
     totalPnLPercentage = NaN\<rparr>"
  by (simp_all add: holdings_metrics_def positions_metrics_def js_sub_def round_double_zero Let_def)

subsection \<open>The bulk-update loops\<close>

text \<open>
  Every write that the holdings loop builds has \<open>net\<close> and \<open>day\<close> \<open>NaN\<close>. An item with
  an id and a price whose id is no \<open>ObjectId\<close> ends the request with the answer 500 and
  the collection as it was, wherever the item stands in the list. Whatever the request, a
  bulk update leaves the stored positions as they were, and the stored holdings as they
  were up to \<open>lastUpdated\<close>.
\<close>

lemma holdings_bulk_loop_metrics:
  assumes "holdings_bulk_loop store uid now us ops errs = Inr (ops', errs')"
    and "\<forall>op \<in> set ops. op_net op = NaN \<and> op_day op = NaN"
  shows "\<forall>op \<in> set ops'. op_net op = NaN \<and> op_day op = NaN"
  using assms
proof (induction store uid now us ops errs rule: holdings_bulk_loop.induct)
  case (1 store userId now bulkOps errors)
  then show ?case by simp
next
  case (2 store userId now update updates bulkOps errors)
  then show ?case
    by (auto simp: holding_get_undeclared js_sub_NaN_right Let_def split: if_splits option.splits)
qed

lemma positions_bulk_loop_cast:
  assumes "\<exists>u \<in> set us. truthy_str (pu_positionId u) \<and> truthy (pu_price u)
             \<and> \<not> isObjectId (template (pu_positionId u))"
  shows "\<exists>e. positions_bulk_loop store uid now us ops errs = Inl e"
  using assms
  by (induction us arbitrary: ops errs)
     (auto simp: Let_def split: option.splits)

lemma positions_bulk_update_aborted:
  assumes "\<exists>u \<in> set us. truthy_str (pu_positionId u) \<and> truthy (pu_price u)
             \<and> \<not> isObjectId (template (pu_positionId u))"
  shows "positions_bulk_update store uid now (Some us) =
     (ServerError ''Failed to update positions'', store)"
  using positions_bulk_loop_cast [OF assms, of store uid now "[]" "[]"]
  by (auto simp: positions_bulk_update_def)

lemma positions_bulk_update_store:
  "snd (positions_bulk_update store uid now updates) = store"
  by (simp add: positions_bulk_update_def positions_bulkWrite_nothing
      split: option.splits sum.splits prod.splits)

lemma holdings_bulk_loop_cast:
  assumes "\<exists>u \<in> set us. truthy_str (u_holdingId u) \<and> truthy (u_price u)
             \<and> \<not> isObjectId (template (u_holdingId u))"
  shows "\<exists>e. holdings_bulk_loop store uid now us ops errs = Inl e"
  using assms
  by (induction us arbitrary: ops errs)
     (auto simp: Let_def split: option.splits)

lemma holdings_bulk_update_aborted:
  assumes "\<exists>u \<in> set us. truthy_str (u_holdingId u) \<and> truthy (u_price u)
             \<and> \<not> isObjectId (template (u_holdingId u))"
  shows "holdings_bulk_update store uid now (Some us) =
     (ServerError ''Failed to update holdings'', store)"
  using holdings_bulk_loop_cast [OF assms, of store uid now "[]" "[]"]
  by (auto simp: holdings_bulk_update_def)

lemma holdings_bulk_update_store:
  "map (\<lambda>h. h\<lparr>h_lastUpdated := 0\<rparr>) (snd (holdings_bulk_update store uid now updates)) =
   map (\<lambda>h. h\<lparr>h_lastUpdated := 0\<rparr>) store"
  by (simp add: holdings_bulk_update_def holdings_bulkWrite_lastUpdated
      split: option.splits sum.splits prod.splits)

subsection \<open>Saving and serving orders\<close>


lemma OrdersModel_save_rejects:
  "\<not> OrdersSchema_admits d \<Longrightarrow> \<exists>e. OrdersModel_save i d store = Inl e"
  by (auto simp: OrdersSchema_admits_def OrdersModel_save_def split: option.splits)







text \<open>
  The object that \<open>POST /new\<close> hands to the constructor names the symbol, the quantity and
  the side \<open>name\<close>, \<open>qty\<close> and \<open>mode\<close>, which are not paths of \<open>OrdersSchema\<close>; the
  required paths \<open>symbol\<close>, \<open>transactionType\<close> and \<open>quantity\<close> stay unset, and every
  request that passes the validators of the route ends in the 500 of a rejected save.
\<close>

lemma orders_new_save_rejected:
  assumes "orderValidation body = []"
  shows "orders_new store uid i now body = (ServerError ''Failed to place order'', store)"
proof -
  have price: "truthy (ob_price body)"
    using assms
    by (cases "ob_price body")
       (auto simp: orderValidation_def isFloat_min_def split: if_splits jsnum.splits)
  have "OrdersSchema_validate (OrdersModel_new (newOrder_literal uid now body)) \<noteq> []"
    by (simp add: OrdersSchema_validate_def OrdersSchema_cast_errors_def OrdersModel_new_def newOrder_literal_def field_str_def
        truthy_str_def Let_def)
  then show ?thesis
    using assms price by (simp add: orders_new_def OrdersModel_save_def Let_def)
qed

text \<open>
  The computed defaults of a new order. When the object gives neither a price nor an
  order value, the default of \<open>orderValue\<close> is \<open>NaN\<close>, the cast refuses it, and the save
  is rejected with a validation error for \<open>orderValue\<close>.
\<close>

lemma OrdersModel_new_defaults:
  "o_quantity (OrdersModel_new obj) = field_num obj ''quantity''"
  "o_price (OrdersModel_new obj) = field_num obj ''price''"
  "field_num obj ''remainingQuantity'' = None \<Longrightarrow>
     o_remainingQuantity (OrdersModel_new obj) = field_num obj ''quantity''"
  "field_num obj ''orderValue'' = None \<Longrightarrow>
     o_orderValue (OrdersModel_new obj) =
       cast_Number (orderValue_default (field_num obj ''price'') (field_num obj ''quantity''))"
  by (simp_all add: OrdersModel_new_def Let_def)

lemma order_without_price_rejected:
  assumes "field_num obj ''orderValue'' = None" "field_num obj ''price'' = None"
  shows "\<exists>errors. OrdersModel_save i (OrdersModel_new obj) store = Inl (ValidationError errors)
                  \<and> ''orderValue'' \<in> set errors"
proof -
  have "o_orderValue (OrdersModel_new obj) = None"
    using assms by (simp add: OrdersModel_new_defaults orderValue_default_def cast_Number_def)
  moreover have "cast_Number (orderValue_default (o_price (OrdersModel_new obj))
      (o_quantity (OrdersModel_new obj))) = None"
    using assms by (simp add: OrdersModel_new_defaults orderValue_default_def cast_Number_def)
  ultimately have "''orderValue'' \<in> set (OrdersSchema_validate (OrdersModel_new obj))"
    by (simp add: OrdersSchema_validate_def OrdersSchema_cast_errors_def)
  then show ?thesis
    by (auto simp: OrdersModel_save_def)
qed

lemma market_order_without_price_rejected:
  "o_price (OrdersModel_new example_market_order) = None
   \<and> o_orderValue (OrdersModel_new example_market_order) = None
   \<and> hd (OrdersSchema_pre_save (OrdersModel_new example_market_order)) = None
   \<and> OrdersModel_save ''o1'' (OrdersModel_new example_market_order) Map.empty =
       Inl (ValidationError [''orderValue''])"
  by (simp add: example_market_order_def OrdersModel_new_def field_str_def field_num_def
      field_default_def OrdersSchema_validate_def OrdersSchema_cast_errors_def OrdersModel_save_def OrdersSchema_pre_save_def
      truthy_str_def js_min_def orderValue_default_def cast_Number_def Let_def)

subsection \<open>Watchlists\<close>

text \<open>
  The collection after a save, document by document, and the error of the save; a save
  preserves \<open>single_default\<close>. The routes read \<open>stocks\<close>, which is no path of the
  schema: for every watchlist that the lookup finds, reorder and remove answer 500 and
  leave the collection as it was.
\<close>

lemma map_of_upsert: "map_of (upsert k v xs) = (map_of xs)(k \<mapsto> v)"
  by (induction xs) (auto simp: fun_eq_iff)

lemma map_of_pre_save:
  "map_of (WatchlistSchema_pre_save wid w store) j =
     (if w_isDefault w \<and> j \<noteq> wid
      then map_option (\<lambda>x. if w_userId x = w_userId w then x\<lparr>w_isDefault := False\<rparr> else x)
             (map_of store j)
      else map_of store j)"
  by (induction store) (auto simp: WatchlistSchema_pre_save_def)

lemma index_conflict_pre_save:
  "index_conflict wid w (WatchlistSchema_pre_save wid w store) = index_conflict wid w store"
  by (induction store) (auto simp: WatchlistSchema_pre_save_def index_conflict_def split: if_splits)

lemma save_lookup:
  "map_of (snd (WatchlistModel_save wid w store)) j =
     (if WatchlistSchema_validate w \<noteq> [] then map_of store j
      else if j = wid then (if index_conflict wid w store then map_of store wid else Some w)
      else if w_isDefault w
      then map_option (\<lambda>x. if w_userId x = w_userId w then x\<lparr>w_isDefault := False\<rparr> else x)
             (map_of store j)
      else map_of store j)"
  by (simp add: WatchlistModel_save_def Let_def index_conflict_pre_save map_of_upsert
      map_of_pre_save)

lemma save_error:
  "fst (WatchlistModel_save wid w store) =
     (if WatchlistSchema_validate w \<noteq> []
      then Some (WatchlistValidationError (WatchlistSchema_validate w))
      else if index_conflict wid w store then Some DuplicateKeyError else None)"
  by (simp add: WatchlistModel_save_def Let_def index_conflict_pre_save)

lemma save_single_default:
  assumes inv: "single_default store"
  shows "single_default (snd (WatchlistModel_save wid w store))"
  unfolding single_default_def
proof (intro allI impI, elim conjE)
  fix i j a b
  let ?S = "snd (WatchlistModel_save wid w store)"
  assume a: "map_of ?S i = Some a" and b: "map_of ?S j = Some b"
    and same: "w_userId a = w_userId b" and da: "w_isDefault a" and db: "w_isDefault b"
  have origin: "map_of store k = Some x \<or> (k = wid \<and> x = w)"
    if "map_of ?S k = Some x" "w_isDefault x" for k x
    using that by (auto simp: save_lookup split: if_splits)
  have cleared: "w_userId x \<noteq> w_userId w"
    if "map_of ?S k = Some x" "w_isDefault x" "k \<noteq> wid" "w_isDefault w"
       "WatchlistSchema_validate w = []" for k x
  proof
    assume u: "w_userId x = w_userId w"
    from that have "map_option
        (\<lambda>y. if w_userId y = w_userId w then y\<lparr>w_isDefault := False\<rparr> else y)
        (map_of store k) = Some x"
      by (simp add: save_lookup)
    then obtain y where "x = (if w_userId y = w_userId w then y\<lparr>w_isDefault := False\<rparr> else y)"
      by auto
    with u have "\<not> w_isDefault x"
      by (cases "w_userId y = w_userId w") auto
    with that show False by simp
  qed
  have saved: "WatchlistSchema_validate w = []" if "map_of ?S k = Some w" "map_of store k \<noteq> Some w" for k
    using that by (auto simp: save_lookup split: if_splits)
  show "i = j"
  proof (rule ccontr)
    assume ne: "i \<noteq> j"
    from origin [OF a da] origin [OF b db]
    consider "map_of store i = Some a" "map_of store j = Some b"
      | "i = wid" "a = w" "map_of store i \<noteq> Some a"
      | "j = wid" "b = w" "map_of store j \<noteq> Some b"
      by blast
    then show False
    proof cases
      case 1
      with inv same da db ne show False
        unfolding single_default_def by blast
    next
      case 2
      then have v: "WatchlistSchema_validate w = []" using saved a by blast
      from 2 ne have "j \<noteq> wid" by simp
      from cleared [OF b db this] da 2 v same show False by simp
    next
      case 3
      then have v: "WatchlistSchema_validate w = []" using saved b by blast
      from 3 ne have "i \<noteq> wid" by simp
      from cleared [OF a da this] db 3 v same show False by simp
    qed
  qed
qed

lemma save_all_single_default:
  "single_default store \<Longrightarrow> single_default (save_all store saves)"
  unfolding save_all_def
  by (induction saves arbitrary: store) (simp_all add: save_step_def save_single_default)

lemma watchlist_get_stocks: "watchlist_get w ''stocks'' = None"
  by (simp add: watchlist_get_def declared_def WatchlistSchema_def mk_path_def)

lemma watchlist_get_items: "watchlist_get w ''items'' = Some (w_items w)"
  by (simp add: watchlist_get_def watchlist_field_def declared_def WatchlistSchema_def mk_path_def)

lemma watchlist_reorder_found:
  assumes "isObjectId wid" and "WatchlistModel_findOne store wid uid = Some w"
  shows "watchlist_reorder store uid wid (Some stocks) = (ServerError ''Failed to reorder watchlist'', store)"
  using assms by (simp add: watchlist_reorder_def watchlist_get_stocks)

lemma watchlist_remove_found:
  assumes "isObjectId wid" and "WatchlistModel_findOne store wid uid = Some w"
  shows "watchlist_remove store uid wid symbol = (ServerError ''Failed to remove stock'', store)"
  using assms by (simp add: watchlist_remove_def watchlist_get_stocks)

subsection \<open>The example data\<close>

lemma ids_distinct:
  "id_a \<noteq> id_b" "id_a \<noteq> id_c" "id_b \<noteq> id_c" "id_b \<noteq> id_a" "id_c \<noteq> id_a" "id_c \<noteq> id_b"
  "id_a \<noteq> []" "id_b \<noteq> []" "id_c \<noteq> []"
  by (simp_all add: id_a_def id_b_def id_c_def)

lemma isObjectId_examples: "isObjectId id_a" "isObjectId id_b" "isObjectId id_c" "\<not> isObjectId ''abc''"
  by (simp_all add: isObjectId_def is_hex_def id_a_def id_b_def id_c_def)

lemma example_users: "user_1 \<noteq> user_2" "user_2 \<noteq> user_1"
  by (simp_all add: user_1_def user_2_def)

lemma example_lookup:
  "map_of example_watchlists id_a = Some example_watchlist"
  "map_of example_watchlists id_b = Some example_watchlist_tech"
  "map_of example_watchlists id_c = Some example_watchlist_other"
  "map_of example_watchlists id_d = None"
  by (simp_all add: example_watchlists_def id_a_def id_b_def id_c_def id_d_def)

lemma example_single_default: "single_default example_watchlists"
  by (auto simp: single_default_def example_watchlists_def example_watchlist_def
      example_watchlist_tech_def example_watchlist_other_def example_users split: if_splits)

section \<open>Holding metrics (C1)\<close>

text \<open>
  C1, at a bulk update. The first user holds ten INFY bought at \<open>100\<close> and asks for a
  bulk update of that holding to the price \<open>120\<close>, for which the formulas give the net
  \<open>(120 - 100) * 10 = 200\<close> and the day change \<open>20\<close>. The write that the loop builds has
  \<open>net\<close> and \<open>day\<close> \<open>NaN\<close>: the handler computes them from \<open>holding.avg\<close> and
  \<open>holding.qty\<close>, which are no paths of \<open>HoldingsSchema\<close> and read \<open>undefined\<close>. Of that
  write \<open>bulkWrite\<close> keeps \<open>lastUpdated\<close> only: the request is answered 200 without
  errors, and the stored holding keeps its price, net and day.
\<close>

theorem bulk_update_metrics_undefined:
  "holdings_bulk_loop [example_holding_a] user_1 7
     [\<lparr>u_holdingId = Some id_a, u_price = Some (Fin 120)\<rparr>] [] [] =
     Inr ([\<lparr>op_id = id_a, op_userId = user_1, op_price = Fin 120, op_net = NaN, op_day = NaN,
            op_lastUpdated = 7\<rparr>], [])
   \<and> holdings_bulk_update [example_holding_a] user_1 7
       (Some [\<lparr>u_holdingId = Some id_a, u_price = Some (Fin 120)\<rparr>]) =
     (Ok None, [example_holding_a\<lparr>h_lastUpdated := 7\<rparr>])"
proof -
  have loop: "holdings_bulk_loop [example_holding_a] user_1 7
     [\<lparr>u_holdingId = Some id_a, u_price = Some (Fin 120)\<rparr>] [] [] =
     Inr ([\<lparr>op_id = id_a, op_userId = user_1, op_price = Fin 120, op_net = NaN, op_day = NaN,
            op_lastUpdated = 7\<rparr>], [])"
    by (simp add: truthy_str_def template_def isObjectId_examples holding_get_undeclared
        js_sub_NaN_right example_holding_a_def ids_distinct)
  have written: "holdings_bulkWrite
      [\<lparr>op_id = id_a, op_userId = user_1, op_price = Fin 120, op_net = NaN, op_day = NaN,
        op_lastUpdated = 7\<rparr>] [example_holding_a] = [example_holding_a\<lparr>h_lastUpdated := 7\<rparr>]"
    by (simp add: holdings_bulkWrite_def holdings_updateOne_def update_first_def
        holding_set_lastUpdated example_holding_a_def)
  show ?thesis
    by (simp only: holdings_bulk_update_def option.case loop) (simp add: written)
qed

section \<open>Order lifecycle (C2)\<close>



section \<open>Order creation (C3)\<close>

text \<open>
  C3, as stated, fails in its last part. A \<open>MARKET\<close> request without a price meets none
  of the three conditions, yet \<open>POST /new\<close> refuses it: the validators of the route ask
  for a price of at least \<open>0.01\<close> whatever the order type. And a \<open>LIMIT\<close> order whose
  price is present and \<open>0\<close> passes the schema validators (the minimum is \<open>0\<close>) but is
  refused by the save hook, which tests \<open>!this.price\<close>.
\<close>

theorem order_creation_counterexample:
  "ob_orderType example_market_body = Some ''MARKET''
   \<and> orders_new Map.empty user_1 ''o1'' 7 example_market_body =
       (ValidationFailed [''Price must be greater than 0''], Map.empty)
   \<and> o_orderType (OrdersModel_new example_zero_limit_order) = ''LIMIT''
   \<and> o_price (OrdersModel_new example_zero_limit_order) = Some (Fin 0)
   \<and> OrdersSchema_validate (OrdersModel_new example_zero_limit_order) = []
   \<and> OrdersModel_save ''o1'' (OrdersModel_new example_zero_limit_order) Map.empty =
       Inl (HookError ''Price is required for LIMIT and SL orders'')"
  by (simp add: example_market_body_def example_zero_limit_order_def orders_new_def
      orderValidation_def js_trim_def body_string_def is_space_def isInt_min_def isFloat_min_def
      isIn_def OrdersModel_new_def field_str_def field_num_def field_default_def
      OrdersSchema_validate_def OrdersSchema_cast_errors_def OrdersModel_save_def OrdersSchema_pre_save_def truthy_str_def
      js_min_def Let_def orderValue_default_def cast_Number_def round_double_zero)

text \<open>
  C3, amended. Saving an order document fails, and stores nothing, when the order type is
  \<open>LIMIT\<close> or \<open>SL\<close> and the price is absent or zero, when the order type is \<open>SL\<close> or
  \<open>SL-M\<close> and the trigger price is absent or zero, and when the order type is \<open>SL\<close> and
  the trigger price is not below the price. A document built from an object without a
  status is \<open>PENDING\<close>, and \<open>PENDING\<close> is the status of the document that \<open>POST /new\<close>
  builds. \<open>POST /new\<close> answers 400 and stores nothing for every request without a price
  of at least \<open>0.01\<close> or with an order type other than \<open>MARKET\<close> and \<open>LIMIT\<close>, and a
  request that it does not answer with 201 stores nothing.
\<close>

theorem order_creation_rules:
  "((o_orderType d = ''LIMIT'' \<or> o_orderType d = ''SL'') \<and> \<not> truthy (o_price d) \<longrightarrow>
      (\<exists>e. OrdersModel_save i d store = Inl e))
   \<and> ((o_orderType d = ''SL'' \<or> o_orderType d = ''SL-M'') \<and> \<not> truthy (o_triggerPrice d) \<longrightarrow>
      (\<exists>e. OrdersModel_save i d store = Inl e))
   \<and> (o_orderType d = ''SL'' \<and> js_ge (to_num (o_triggerPrice d)) (to_num (o_price d)) \<longrightarrow>
      (\<exists>e. OrdersModel_save i d store = Inl e))
   \<and> (field_str obj ''status'' = None \<longrightarrow> o_status (OrdersModel_new obj) = ''PENDING'')
   \<and> o_status (OrdersModel_new (newOrder_literal uid now body)) = ''PENDING''
   \<and> (\<not> isFloat_min (1 / 100) (ob_price body) \<or> \<not> isIn [''MARKET'', ''LIMIT''] (ob_orderType body) \<longrightarrow>
      orders_new store uid i now body = (ValidationFailed (orderValidation body), store))
   \<and> ((\<forall>d'. fst (orders_new store uid i now body) \<noteq> Created d') \<longrightarrow>
      snd (orders_new store uid i now body) = store)"
proof (intro conjI impI)
  assume "(o_orderType d = ''LIMIT'' \<or> o_orderType d = ''SL'') \<and> \<not> truthy (o_price d)"
  then have "\<not> OrdersSchema_admits d"
    by (auto simp: OrdersSchema_admits_def OrdersSchema_pre_save_def)
  then show "\<exists>e. OrdersModel_save i d store = Inl e" by (rule OrdersModel_save_rejects)
next
  assume "(o_orderType d = ''SL'' \<or> o_orderType d = ''SL-M'') \<and> \<not> truthy (o_triggerPrice d)"
  then have "\<not> OrdersSchema_admits d"
    by (auto simp: OrdersSchema_admits_def OrdersSchema_pre_save_def)
  then show "\<exists>e. OrdersModel_save i d store = Inl e" by (rule OrdersModel_save_rejects)
next
  assume "o_orderType d = ''SL'' \<and> js_ge (to_num (o_triggerPrice d)) (to_num (o_price d))"
  then have "\<not> OrdersSchema_admits d"
    by (auto simp: OrdersSchema_admits_def OrdersSchema_pre_save_def)
  then show "\<exists>e. OrdersModel_save i d store = Inl e" by (rule OrdersModel_save_rejects)
next
  assume "field_str obj ''status'' = None"
  then show "o_status (OrdersModel_new obj) = ''PENDING''"
    by (simp add: OrdersModel_new_def field_default_def Let_def)
next
  show "o_status (OrdersModel_new (newOrder_literal uid now body)) = ''PENDING''"
    by (simp add: OrdersModel_new_def newOrder_literal_def field_default_def field_str_def Let_def)
next
  assume "\<not> isFloat_min (1 / 100) (ob_price body) \<or> \<not> isIn [''MARKET'', ''LIMIT''] (ob_orderType body)"
  then have "orderValidation body \<noteq> []"
    by (auto simp: orderValidation_def)
  then show "orders_new store uid i now body = (ValidationFailed (orderValidation body), store)"
    by (simp add: orders_new_def Let_def)
next
  assume "\<forall>d'. fst (orders_new store uid i now body) \<noteq> Created d'"
  then show "snd (orders_new store uid i now body) = store"
    by (auto simp: orders_new_def Let_def split: if_splits sum.splits)
qed

theorem order_creation_rules_witness:
  "(\<exists>e. OrdersModel_save ''o1'' (OrdersModel_new example_zero_limit_order) Map.empty = Inl e)
   \<and> (\<exists>e. OrdersModel_save ''o1'' ((OrdersModel_new example_limit_order)\<lparr>o_price := None\<rparr>) Map.empty = Inl e)
   \<and> (\<exists>e. OrdersModel_save ''o1'' ((OrdersModel_new example_limit_order)\<lparr>o_orderType := ''SL-M''\<rparr>) Map.empty = Inl e)
   \<and> (\<exists>e. OrdersModel_save ''o1'' (OrdersModel_new example_stop_order) Map.empty = Inl e)
   \<and> o_status (OrdersModel_new example_limit_order) = ''PENDING''
   \<and> orders_new Map.empty user_1 ''o1'' 7 example_market_body =
       (ValidationFailed (orderValidation example_market_body), Map.empty)
   \<and> snd (orders_new Map.empty user_1 ''o1'' 7 example_market_body) = Map.empty"
proof -
  let ?d = "OrdersModel_new example_limit_order"
  have d: "o_orderType ?d = ''LIMIT''" "o_price ?d = Some (Fin 100)" "o_triggerPrice ?d = None"
    by (simp_all add: OrdersModel_new_def example_limit_order_def field_str_def field_num_def
        field_default_def Let_def)
  have z: "o_orderType (OrdersModel_new example_zero_limit_order) = ''LIMIT''"
      "o_price (OrdersModel_new example_zero_limit_order) = Some (Fin 0)"
    by (simp_all add: OrdersModel_new_def example_zero_limit_order_def field_str_def field_num_def
        field_default_def Let_def)
  have s: "o_orderType (OrdersModel_new example_stop_order) = ''SL''"
      "o_price (OrdersModel_new example_stop_order) = Some (Fin 100)"
      "o_triggerPrice (OrdersModel_new example_stop_order) = Some (Fin 100)"
    by (simp_all add: OrdersModel_new_def example_stop_order_def field_str_def field_num_def
        field_default_def Let_def)
  have market: "\<not> isFloat_min (1 / 100) (ob_price example_market_body)"
    by (simp add: example_market_body_def isFloat_min_def)
  have st: "field_str example_limit_order ''status'' = None"
    by (simp add: example_limit_order_def field_str_def)
  have nc: "\<forall>d'. fst (orders_new Map.empty user_1 ''o1'' 7 example_market_body) \<noteq> Created d'"
    using market by (simp add: orders_new_def orderValidation_def Let_def)
  from order_creation_rules
         [of "OrdersModel_new example_zero_limit_order" "''o1''" Map.empty example_limit_order
             user_1 7 example_market_body]
       market st nc z
  have a: "\<exists>e. OrdersModel_save ''o1'' (OrdersModel_new example_zero_limit_order) Map.empty = Inl e"
    and b: "o_status ?d = ''PENDING''"
    and c: "orders_new Map.empty user_1 ''o1'' 7 example_market_body =
       (ValidationFailed (orderValidation example_market_body), Map.empty)"
    and c': "snd (orders_new Map.empty user_1 ''o1'' 7 example_market_body) = Map.empty"
    by simp_all
  from order_creation_rules [of "?d\<lparr>o_price := None\<rparr>" "''o1''" Map.empty]
  have e: "\<exists>e. OrdersModel_save ''o1'' (?d\<lparr>o_price := None\<rparr>) Map.empty = Inl e"
    by (simp add: d)
  from order_creation_rules [of "?d\<lparr>o_orderType := ''SL-M''\<rparr>" "''o1''" Map.empty]
  have f: "\<exists>e. OrdersModel_save ''o1'' (?d\<lparr>o_orderType := ''SL-M''\<rparr>) Map.empty = Inl e"
    by (simp add: d)
  from order_creation_rules [of "OrdersModel_new example_stop_order" "''o1''" Map.empty]
  have g: "\<exists>e. OrdersModel_save ''o1'' (OrdersModel_new example_stop_order) Map.empty = Inl e"
    by (simp add: s)
  from a b c c' e f g show ?thesis by blast
qed

section \<open>Portfolio metrics (C4)\<close>

text \<open>
  C4, as stated, fails. With no holdings (and likewise with no positions) the total
  investment is \<open>0\<close> and the percentage of the answer is \<open>NaN\<close>: the handlers divide
  whatever the total investment is, and signal nothing.
\<close>

theorem portfolio_metrics_counterexample:
  "totalInvestment (holdings_metrics []) = Fin 0
   \<and> totalPnLPercentage (holdings_metrics []) = NaN
   \<and> totalInvestment (positions_metrics []) = Fin 0
   \<and> totalPnLPercentage (positions_metrics []) = NaN"
  by (simp add: metrics_empty)

text \<open>
  C4, amended. For the empty list of holdings, and of positions, the four totals are
  \<open>0\<close> and the percentage is \<open>NaN\<close>. For every list, the total profit is the current
  value minus the total investment and the percentage is the total profit divided by the
  total investment, times \<open>100\<close>, as JavaScript evaluates them; when the total
  investment is \<open>0\<close> the percentage is \<open>NaN\<close> or an infinity, and nothing is signalled.
\<close>

theorem portfolio_metrics:
  "holdings_metrics [] =
     \<lparr>totalInvestment = Fin 0, currentValue = Fin 0, todaysPnL = Fin 0, totalPnL = Fin 0,
      totalPnLPercentage = NaN\<rparr>
   \<and> positions_metrics [] =
     \<lparr>totalInvestment = Fin 0, currentValue = Fin 0, todaysPnL = Fin 0, totalPnL = Fin 0,
      totalPnLPercentage = NaN\<rparr>
   \<and> totalPnL (holdings_metrics hs) =
       js_sub (currentValue (holdings_metrics hs)) (totalInvestment (holdings_metrics hs))
   \<and> totalPnLPercentage (holdings_metrics hs) =
       js_mul (js_div (totalPnL (holdings_metrics hs)) (totalInvestment (holdings_metrics hs))) (Fin 100)
   \<and> (totalInvestment (holdings_metrics hs) = Fin 0 \<longrightarrow>
        totalPnLPercentage (holdings_metrics hs) \<in> {NaN, PosInfinity, NegInfinity})
   \<and> totalPnL (positions_metrics ps) =
       js_sub (currentValue (positions_metrics ps)) (totalInvestment (positions_metrics ps))
   \<and> totalPnLPercentage (positions_metrics ps) =
       js_mul (js_div (totalPnL (positions_metrics ps)) (totalInvestment (positions_metrics ps))) (Fin 100)
   \<and> (totalInvestment (positions_metrics ps) = Fin 0 \<longrightarrow>
        totalPnLPercentage (positions_metrics ps) \<in> {NaN, PosInfinity, NegInfinity})"
proof -
  have h1: "totalPnL (holdings_metrics hs) =
       js_sub (currentValue (holdings_metrics hs)) (totalInvestment (holdings_metrics hs))"
    by (simp add: holdings_metrics_def Let_def)
  have h2: "totalPnLPercentage (holdings_metrics hs) =
       js_mul (js_div (totalPnL (holdings_metrics hs)) (totalInvestment (holdings_metrics hs))) (Fin 100)"
    by (simp add: holdings_metrics_def Let_def)
  have h3: "totalInvestment (holdings_metrics hs) = Fin 0 \<longrightarrow>
        totalPnLPercentage (holdings_metrics hs) \<in> {NaN, PosInfinity, NegInfinity}"
    using js_percentage_zero [of "totalPnL (holdings_metrics hs)"] by (simp only: h2) simp
  have p1: "totalPnL (positions_metrics ps) =
       js_sub (currentValue (positions_metrics ps)) (totalInvestment (positions_metrics ps))"
    by (simp add: positions_metrics_def Let_def)
  have p2: "totalPnLPercentage (positions_metrics ps) =
       js_mul (js_div (totalPnL (positions_metrics ps)) (totalInvestment (positions_metrics ps))) (Fin 100)"
    by (simp add: positions_metrics_def Let_def)
  have p3: "totalInvestment (positions_metrics ps) = Fin 0 \<longrightarrow>
        totalPnLPercentage (positions_metrics ps) \<in> {NaN, PosInfinity, NegInfinity}"
    using js_percentage_zero [of "totalPnL (positions_metrics ps)"] by (simp only: p2) simp
  from metrics_empty h1 h2 h3 p1 p2 p3 show ?thesis by blast
qed

theorem portfolio_metrics_witness:
  "totalInvestment (holdings_metrics []) = Fin 0
   \<and> totalPnLPercentage (holdings_metrics []) \<in> {NaN, PosInfinity, NegInfinity}
   \<and> totalInvestment (positions_metrics []) = Fin 0
   \<and> totalPnLPercentage (positions_metrics []) \<in> {NaN, PosInfinity, NegInfinity}"
  using portfolio_metrics [of "[]" "[]"] by simp

section \<open>Bulk price updates (C5)\<close>

text \<open>
  C5, at requests of three items for the two stored positions, and the two stored
  holdings, of the first user. When the second item carries the id \<open>abc\<close>, which is no
  \<open>ObjectId\<close>, \<open>findOne\<close> throws: the answer is 500 without a list of errors, and no
  item is applied. When the second item carries a well-formed id that names no document,
  the answer is 200 with the one message for that item; but the writes for the two other
  items name fields that are no paths of the schema, so the stored positions stay exactly
  as they were, and of the stored holdings only \<open>lastUpdated\<close> changes.
\<close>

theorem bulk_update_failing_item:
  "positions_bulk_update [example_position_a, example_position_b] user_1 7
     (Some [\<lparr>pu_positionId = Some id_a, pu_price = Some (Fin 120)\<rparr>,
            \<lparr>pu_positionId = Some ''abc'', pu_price = Some (Fin 30)\<rparr>,
            \<lparr>pu_positionId = Some id_b, pu_price = Some (Fin 45)\<rparr>]) =
     (ServerError ''Failed to update positions'', [example_position_a, example_position_b])
   \<and> positions_bulk_update [example_position_a, example_position_b] user_1 7
       (Some [\<lparr>pu_positionId = Some id_a, pu_price = Some (Fin 120)\<rparr>,
              \<lparr>pu_positionId = Some id_c, pu_price = Some (Fin 30)\<rparr>,
              \<lparr>pu_positionId = Some id_b, pu_price = Some (Fin 45)\<rparr>]) =
     (Ok (Some [''Position not found: '' @ id_c]), [example_position_a, example_position_b])
   \<and> holdings_bulk_update [example_holding_a, example_holding_b] user_1 7
       (Some [\<lparr>u_holdingId = Some id_a, u_price = Some (Fin 120)\<rparr>,
              \<lparr>u_holdingId = Some ''abc'', u_price = Some (Fin 30)\<rparr>,
              \<lparr>u_holdingId = Some id_b, u_price = Some (Fin 45)\<rparr>]) =
     (ServerError ''Failed to update holdings'', [example_holding_a, example_holding_b])
   \<and> holdings_bulk_update [example_holding_a, example_holding_b] user_1 7
       (Some [\<lparr>u_holdingId = Some id_a, u_price = Some (Fin 120)\<rparr>,
              \<lparr>u_holdingId = Some id_c, u_price = Some (Fin 30)\<rparr>,
              \<lparr>u_holdingId = Some id_b, u_price = Some (Fin 45)\<rparr>]) =
     (Ok (Some [''Holding not found: '' @ id_c]),
      [example_holding_a\<lparr>h_lastUpdated := 7\<rparr>, example_holding_b\<lparr>h_lastUpdated := 7\<rparr>])"
proof -
  note ids = ids_distinct
  have p1: "positions_bulk_update [example_position_a, example_position_b] user_1 7
     (Some [\<lparr>pu_positionId = Some id_a, pu_price = Some (Fin 120)\<rparr>,
            \<lparr>pu_positionId = Some ''abc'', pu_price = Some (Fin 30)\<rparr>,
            \<lparr>pu_positionId = Some id_b, pu_price = Some (Fin 45)\<rparr>]) =
     (ServerError ''Failed to update positions'', [example_position_a, example_position_b])"
    by (simp add: positions_bulk_update_def truthy_str_def template_def isObjectId_examples
        example_position_a_def example_position_b_def ids Let_def)
  have p2: "positions_bulk_update [example_position_a, example_position_b] user_1 7
       (Some [\<lparr>pu_positionId = Some id_a, pu_price = Some (Fin 120)\<rparr>,
              \<lparr>pu_positionId = Some id_c, pu_price = Some (Fin 30)\<rparr>,
              \<lparr>pu_positionId = Some id_b, pu_price = Some (Fin 45)\<rparr>]) =
     (Ok (Some [''Position not found: '' @ id_c]), [example_position_a, example_position_b])"
    by (simp add: positions_bulk_update_def truthy_str_def template_def isObjectId_examples
        example_position_a_def example_position_b_def ids Let_def positions_bulkWrite_nothing)
  have h1: "holdings_bulk_update [example_holding_a, example_holding_b] user_1 7
       (Some [\<lparr>u_holdingId = Some id_a, u_price = Some (Fin 120)\<rparr>,
              \<lparr>u_holdingId = Some ''abc'', u_price = Some (Fin 30)\<rparr>,
              \<lparr>u_holdingId = Some id_b, u_price = Some (Fin 45)\<rparr>]) =
     (ServerError ''Failed to update holdings'', [example_holding_a, example_holding_b])"
    by (simp add: holdings_bulk_update_def truthy_str_def template_def isObjectId_examples
        example_holding_a_def example_holding_b_def ids Let_def)
  have h2: "holdings_bulk_update [example_holding_a, example_holding_b] user_1 7
       (Some [\<lparr>u_holdingId = Some id_a, u_price = Some (Fin 120)\<rparr>,
              \<lparr>u_holdingId = Some id_c, u_price = Some (Fin 30)\<rparr>,
              \<lparr>u_holdingId = Some id_b, u_price = Some (Fin 45)\<rparr>]) =
     (Ok (Some [''Holding not found: '' @ id_c]),
      [example_holding_a\<lparr>h_lastUpdated := 7\<rparr>, example_holding_b\<lparr>h_lastUpdated := 7\<rparr>])"
    by (simp add: holdings_bulk_update_def truthy_str_def template_def isObjectId_examples
        example_holding_a_def example_holding_b_def ids Let_def holdings_bulkWrite_def
        holdings_updateOne_def update_first_def holding_set_lastUpdated)
  from p1 p2 h1 h2 show ?thesis by blast
qed

section \<open>The default watchlist (C6)\<close>

text \<open>
  C6. The empty collection has at most one default watchlist for every user, and so has
  the collection after any sequence of saves that starts from a collection that has. A
  save that passes validation and marks its watchlist default leaves every other stored
  watchlist in place, with the flag cleared if it has the same owner and unchanged
  otherwise; the save of a watchlist that is not marked default leaves every other stored
  watchlist unchanged. When validation passes and no other watchlist of the owner has the
  name, the save succeeds and the collection holds the saved watchlist; when the unique
  index refuses the write, the watchlist is not stored; and when validation fails, the
  collection is as it was.
\<close>

theorem single_default_preserved:
  "single_default []
   \<and> (single_default store \<longrightarrow> single_default (save_all store saves))
   \<and> (WatchlistSchema_validate w = [] \<and> w_isDefault w \<and> j \<noteq> wid \<longrightarrow>
        map_of (snd (WatchlistModel_save wid w store)) j =
          (case map_of store j of
             None \<Rightarrow> None
           | Some x \<Rightarrow> Some (if w_userId x = w_userId w then x\<lparr>w_isDefault := False\<rparr> else x)))
   \<and> (\<not> w_isDefault w \<and> j \<noteq> wid \<longrightarrow>
        map_of (snd (WatchlistModel_save wid w store)) j = map_of store j)
   \<and> (WatchlistSchema_validate w = [] \<and> \<not> index_conflict wid w store \<longrightarrow>
        fst (WatchlistModel_save wid w store) = None
        \<and> map_of (snd (WatchlistModel_save wid w store)) wid = Some w)
   \<and> (WatchlistSchema_validate w = [] \<and> index_conflict wid w store \<longrightarrow>
        fst (WatchlistModel_save wid w store) = Some DuplicateKeyError
        \<and> map_of (snd (WatchlistModel_save wid w store)) wid = map_of store wid)
   \<and> (WatchlistSchema_validate w \<noteq> [] \<longrightarrow>
        WatchlistModel_save wid w store =
          (Some (WatchlistValidationError (WatchlistSchema_validate w)), store))"
proof (intro conjI impI)
  show "single_default []" by (simp add: single_default_def)
next
  assume "single_default store"
  then show "single_default (save_all store saves)" by (rule save_all_single_default)
next
  assume "WatchlistSchema_validate w = [] \<and> w_isDefault w \<and> j \<noteq> wid"
  then show "map_of (snd (WatchlistModel_save wid w store)) j =
          (case map_of store j of
             None \<Rightarrow> None
           | Some x \<Rightarrow> Some (if w_userId x = w_userId w then x\<lparr>w_isDefault := False\<rparr> else x))"
    by (simp add: save_lookup split: option.splits)
next
  assume "\<not> w_isDefault w \<and> j \<noteq> wid"
  then show "map_of (snd (WatchlistModel_save wid w store)) j = map_of store j"
    by (simp add: save_lookup)
next
  assume "WatchlistSchema_validate w = [] \<and> \<not> index_conflict wid w store"
  then show "fst (WatchlistModel_save wid w store) = None"
    and "map_of (snd (WatchlistModel_save wid w store)) wid = Some w"
    by (simp_all add: save_lookup save_error)
next
  assume "WatchlistSchema_validate w = [] \<and> index_conflict wid w store"
  then show "fst (WatchlistModel_save wid w store) = Some DuplicateKeyError"
    and "map_of (snd (WatchlistModel_save wid w store)) wid = map_of store wid"
    by (simp_all add: save_lookup save_error)
next
  assume "WatchlistSchema_validate w \<noteq> []"
  then show "WatchlistModel_save wid w store =
          (Some (WatchlistValidationError (WatchlistSchema_validate w)), store)"
    by (simp add: WatchlistModel_save_def)
qed

theorem single_default_preserved_witness:
  "single_default (save_all example_watchlists [(id_d, example_watchlist_growth)])
   \<and> WatchlistModel_save id_d example_watchlist_growth example_watchlists =
       (None,
        [(id_a, example_watchlist\<lparr>w_isDefault := False\<rparr>), (id_b, example_watchlist_tech),
         (id_c, example_watchlist_other), (id_d, example_watchlist_growth)])
   \<and> map_of (snd (WatchlistModel_save id_d example_watchlist_growth example_watchlists)) id_a =
       Some (example_watchlist\<lparr>w_isDefault := False\<rparr>)
   \<and> map_of (snd (WatchlistModel_save id_d example_watchlist_growth example_watchlists)) id_c =
       Some example_watchlist_other
   \<and> map_of (snd (WatchlistModel_save id_d example_watchlist_growth example_watchlists)) id_d =
       Some example_watchlist_growth
   \<and> map_of (snd (WatchlistModel_save id_d (example_watchlist_tech\<lparr>w_isDefault := False\<rparr>)
                      example_watchlists)) id_a = Some example_watchlist
   \<and> WatchlistModel_save id_d (example_watchlist_growth\<lparr>w_name := ''Tech''\<rparr>) example_watchlists =
       (Some DuplicateKeyError,
        [(id_a, example_watchlist\<lparr>w_isDefault := False\<rparr>), (id_b, example_watchlist_tech),
         (id_c, example_watchlist_other)])
   \<and> map_of (snd (WatchlistModel_save id_d (example_watchlist_growth\<lparr>w_name := ''Tech''\<rparr>)
                      example_watchlists)) id_d = None
   \<and> WatchlistModel_save id_d (example_watchlist_growth\<lparr>w_name := ''''\<rparr>) example_watchlists =
       (Some (WatchlistValidationError [''Watchlist name is required'']), example_watchlists)"
proof -
  have ids: "id_a \<noteq> id_d" "id_b \<noteq> id_d" "id_c \<noteq> id_d"
    by (simp_all add: id_a_def id_b_def id_c_def id_d_def)
  have valid: "WatchlistSchema_validate example_watchlist_growth = []"
      "WatchlistSchema_validate (example_watchlist_tech\<lparr>w_isDefault := False\<rparr>) = []"
      "WatchlistSchema_validate (example_watchlist_growth\<lparr>w_name := ''Tech''\<rparr>) = []"
    by (simp_all add: WatchlistSchema_validate_def WatchlistItemSchema_validate_def
        example_watchlist_growth_def example_watchlist_tech_def infy_nse_def tcs_nse_def
        js_trim_def is_space_def body_string_def)
  have invalid: "WatchlistSchema_validate (example_watchlist_growth\<lparr>w_name := ''''\<rparr>) =
      [''Watchlist name is required'']"
    by (simp add: WatchlistSchema_validate_def WatchlistItemSchema_validate_def
        example_watchlist_growth_def infy_nse_def js_trim_def is_space_def body_string_def)
  have free: "\<not> index_conflict id_d example_watchlist_growth example_watchlists"
    by (simp add: index_conflict_def example_watchlists_def example_watchlist_def
        example_watchlist_tech_def example_watchlist_other_def example_watchlist_growth_def
        js_trim_def is_space_def)
  have taken: "index_conflict id_d (example_watchlist_growth\<lparr>w_name := ''Tech''\<rparr>) example_watchlists"
    by (simp add: index_conflict_def example_watchlists_def example_watchlist_def
        example_watchlist_tech_def example_watchlist_other_def example_watchlist_growth_def
        js_trim_def is_space_def ids)
  have default: "w_isDefault example_watchlist_growth" "w_userId example_watchlist_growth = user_1"
      "w_userId example_watchlist = user_1" "w_userId example_watchlist_other = user_2"
    by (simp_all add: example_watchlist_growth_def example_watchlist_def example_watchlist_other_def)
  have s1: "WatchlistModel_save id_d example_watchlist_growth example_watchlists =
       (None,
        [(id_a, example_watchlist\<lparr>w_isDefault := False\<rparr>), (id_b, example_watchlist_tech),
         (id_c, example_watchlist_other), (id_d, example_watchlist_growth)])"
    by (simp add: WatchlistModel_save_def WatchlistSchema_validate_def
        WatchlistItemSchema_validate_def WatchlistSchema_pre_save_def index_conflict_def
        example_watchlists_def example_watchlist_def example_watchlist_tech_def
        example_watchlist_other_def example_watchlist_growth_def infy_nse_def tcs_nse_def
        js_trim_def is_space_def body_string_def id_a_def id_b_def id_c_def id_d_def
        user_1_def user_2_def Let_def)
  have s2: "WatchlistModel_save id_d (example_watchlist_growth\<lparr>w_name := ''Tech''\<rparr>) example_watchlists =
       (Some DuplicateKeyError,
        [(id_a, example_watchlist\<lparr>w_isDefault := False\<rparr>), (id_b, example_watchlist_tech),
         (id_c, example_watchlist_other)])"
    by (simp add: WatchlistModel_save_def WatchlistSchema_validate_def
        WatchlistItemSchema_validate_def WatchlistSchema_pre_save_def index_conflict_def
        example_watchlists_def example_watchlist_def example_watchlist_tech_def
        example_watchlist_other_def example_watchlist_growth_def infy_nse_def tcs_nse_def
        js_trim_def is_space_def body_string_def id_a_def id_b_def id_c_def id_d_def
        user_1_def user_2_def Let_def)
  from single_default_preserved
         [of example_watchlists "[(id_d, example_watchlist_growth)]" example_watchlist_growth id_a id_d]
       example_single_default valid(1) default ids free
  have a: "single_default (save_all example_watchlists [(id_d, example_watchlist_growth)])"
    and b: "map_of (snd (WatchlistModel_save id_d example_watchlist_growth example_watchlists)) id_a =
       Some (example_watchlist\<lparr>w_isDefault := False\<rparr>)"
    and c: "map_of (snd (WatchlistModel_save id_d example_watchlist_growth example_watchlists)) id_d =
       Some example_watchlist_growth"
    by (simp_all add: example_lookup)
  from single_default_preserved
         [of example_watchlists "[]" example_watchlist_growth id_c id_d]
       valid(1) default ids example_users
  have d: "map_of (snd (WatchlistModel_save id_d example_watchlist_growth example_watchlists)) id_c =
       Some example_watchlist_other"
    by (simp add: example_lookup)
  from single_default_preserved
         [of example_watchlists "[]" "example_watchlist_tech\<lparr>w_isDefault := False\<rparr>" id_a id_d]
       ids
  have e: "map_of (snd (WatchlistModel_save id_d (example_watchlist_tech\<lparr>w_isDefault := False\<rparr>)
                      example_watchlists)) id_a = Some example_watchlist"
    by (simp add: example_lookup)
  from single_default_preserved
         [of example_watchlists "[]" "example_watchlist_growth\<lparr>w_name := ''''\<rparr>" id_a id_d]
       invalid
  have f: "WatchlistModel_save id_d (example_watchlist_growth\<lparr>w_name := ''''\<rparr>) example_watchlists =
       (Some (WatchlistValidationError [''Watchlist name is required'']), example_watchlists)"
    by simp
  from single_default_preserved
         [of example_watchlists "[]" "example_watchlist_growth\<lparr>w_name := ''Tech''\<rparr>" id_a id_d]
       valid(3) taken
  have g: "map_of (snd (WatchlistModel_save id_d (example_watchlist_growth\<lparr>w_name := ''Tech''\<rparr>)
                      example_watchlists)) id_d = None"
    by (simp add: example_lookup)
  from a s1 b d c e s2 g f show ?thesis by blast
qed

section \<open>Reordering a watchlist (C7)\<close>

text \<open>
  C7, at a full permutation. The default watchlist of the first user holds the entries
  INFY and TCS, and the request asks for the order TCS, INFY. The answer is 500 and
  nothing is stored: the entries are the path \<open>items\<close> of the schema, while the handler
  reads \<open>watchlist.stocks\<close>, which is \<open>undefined\<close> on the document it has loaded.
\<close>

theorem reorder_permutation_fails:
  "WatchlistModel_findOne example_watchlists id_a user_1 = Some example_watchlist
   \<and> w_items example_watchlist = [infy_nse, tcs_nse]
   \<and> watchlist_reorder example_watchlists user_1 id_a (Some [tcs_nse, infy_nse]) =
       (ServerError ''Failed to reorder watchlist'', example_watchlists)"
  by (simp add: watchlist_reorder_def watchlist_get_stocks WatchlistModel_findOne_def
      example_lookup isObjectId_examples example_watchlist_def)

section \<open>Removing a stock from a watchlist (C8)\<close>

text \<open>
  C8, at an entry that is there. The default watchlist of the first user holds INFY on
  NSE, and the request asks to remove INFY. The answer is 500 and nothing is removed: the
  handler calls \<open>findIndex\<close> on \<open>watchlist.stocks\<close>, which is \<open>undefined\<close> on the
  document it has loaded. The method \<open>removeItem\<close> of the schema, which no route calls,
  removes that entry from \<open>items\<close> and keeps the other one.
\<close>

theorem remove_present_stock_fails:
  "WatchlistModel_findOne example_watchlists id_a user_1 = Some example_watchlist
   \<and> w_items example_watchlist = [infy_nse, tcs_nse]
   \<and> watchlist_remove example_watchlists user_1 id_a ''INFY'' =
       (ServerError ''Failed to remove stock'', example_watchlists)
   \<and> removeItem (w_items example_watchlist) ''INFY'' (Some ''NSE'') = [tcs_nse]"
  by (simp add: watchlist_remove_def watchlist_get_stocks WatchlistModel_findOne_def
      example_lookup isObjectId_examples example_watchlist_def removeItem_def field_default_def
      infy_nse_def tcs_nse_def)

section \<open>Order defaults (C9)\<close>




section \<open>Adding a holding (C10)\<close>

text \<open>
  C10. For every request to \<open>POST /add\<close> that the validators admit: none of the keys
  \<open>name\<close>, \<open>qty\<close>, \<open>avg\<close>, \<open>price\<close>, \<open>net\<close>, \<open>day\<close> of the object that the handler builds
  is a path of \<open>HoldingsSchema\<close>, so the document keeps only \<open>userId\<close> and
  \<open>lastUpdated\<close>; the required paths \<open>symbol\<close>, \<open>quantity\<close>, \<open>averageBuyPrice\<close> and
  \<open>currentMarketPrice\<close> stay unset and validation rejects the save. The handler
  therefore never answers 201 and never stores anything, and once it has passed the
  duplicate check and built the document its answer is the generic 500.
\<close>

theorem holdings_add_never_succeeds:
  assumes "holdingValidation body = []"
  shows
    "(\<forall>k \<in> set [''name'', ''qty'', ''avg'', ''price'', ''net'', ''day'']. \<not> declared HoldingsSchema k)
     \<and> map fst (Model_new HoldingsSchema (newHolding_literal uid now body)) = [''userId'', ''lastUpdated'']
     \<and> Model_validate HoldingsSchema (Model_new HoldingsSchema (newHolding_literal uid now body)) =
         [''symbol'', ''quantity'', ''averageBuyPrice'', ''currentMarketPrice'']
     \<and> (\<forall>h. fst (holdings_add store uid new_id now body) \<noteq> Created h)
     \<and> snd (holdings_add store uid new_id now body) = store
     \<and> (find (\<lambda>h. h_userId h = uid \<and> h_name h = js_trim (body_string (hb_name body))) store = None \<longrightarrow>
          holdings_add store uid new_id now body = (ServerError ''Failed to add holding'', store))"
proof -
  have paths: "map fst (Model_new HoldingsSchema (newHolding_literal uid now body)) =
      [''userId'', ''lastUpdated'']"
    by (simp add: Model_new_def newHolding_literal_def declared_def HoldingsSchema_def mk_path_def
        Let_def)
  have invalid: "Model_validate HoldingsSchema (Model_new HoldingsSchema (newHolding_literal uid now body)) =
      [''symbol'', ''quantity'', ''averageBuyPrice'', ''currentMarketPrice'']"
    by (simp add: Model_validate_def Model_new_def newHolding_literal_def declared_def
        path_set_def HoldingsSchema_def mk_path_def Let_def)
  have name: "literal_str (newHolding_literal uid now body) ''name'' = js_trim (body_string (hb_name body))"
    by (simp add: literal_str_def newHolding_literal_def Let_def)
  have undeclared:
    "\<forall>k \<in> set [''name'', ''qty'', ''avg'', ''price'', ''net'', ''day'']. \<not> declared HoldingsSchema k"
    by (simp add: declared_def HoldingsSchema_def mk_path_def)
  have never: "\<forall>h. fst (holdings_add store uid new_id now body) \<noteq> Created h"
    using assms by (simp add: holdings_add_def Let_def invalid split: option.splits)
  have same: "snd (holdings_add store uid new_id now body) = store"
    using assms by (simp add: holdings_add_def Let_def invalid split: option.splits)
  have fail: "find (\<lambda>h. h_userId h = uid \<and> h_name h = js_trim (body_string (hb_name body))) store = None \<longrightarrow>
      holdings_add store uid new_id now body = (ServerError ''Failed to add holding'', store)"
    using assms by (simp add: holdings_add_def Let_def invalid name)
  from undeclared paths invalid never same fail show ?thesis by blast
qed

theorem holdings_add_never_succeeds_witness:
  "holdingValidation
     \<lparr>hb_name = Some ''INFY'', hb_qty = Some (Fin 10), hb_avg = Some (Fin 100),
      hb_price = Some (Fin 120)\<rparr> = []
   \<and> holdings_add [] ''u1'' ''h1'' 7
       \<lparr>hb_name = Some ''INFY'', hb_qty = Some (Fin 10), hb_avg = Some (Fin 100),
        hb_price = Some (Fin 120)\<rparr> = (ServerError ''Failed to add holding'', [])"
proof -
  have valid: "holdingValidation
     \<lparr>hb_name = Some ''INFY'', hb_qty = Some (Fin 10), hb_avg = Some (Fin 100),
      hb_price = Some (Fin 120)\<rparr> = []"
    by (simp add: holdingValidation_def js_trim_def body_string_def is_space_def isInt_min_def
        isFloat_min_def)
  from holdings_add_never_succeeds [OF valid, of "''u1''" 7 "[]" "''h1''"] valid
  show ?thesis by simp
qed

end
